theory Spec2Isabelle
  imports Main "HOL-Library.Finite_Map" "HOL-Library.Word"
begin

unbundle bit_operations_syntax

section \<open>Go library functions used by the sources\<close>

text \<open>
  Go strings are byte sequences; they are modelled as \<open>string\<close> (a list of 8-bit
  characters). The functions below follow the Go standard library (package
  \<^verbatim>\<open>strings\<close>, \<^verbatim>\<open>path/filepath\<close> on a Unix system, and the \<^verbatim>\<open>%d\<close> verb of
  \<^verbatim>\<open>fmt\<close>), restricted to the ways the sources call them. All of them work on
  bytes. \<^verbatim>\<open>strings.TrimSpace\<close> does not (it decodes UTF-8 and strips Unicode white
  space) and is not defined here: it is a parameter of the model, like
  \<^verbatim>\<open>filepath.Join\<close>.
\<close>

text \<open>\<^verbatim>\<open>strings.HasPrefix(s, prefix)\<close>: \<^verbatim>\<open>len(s) >= len(prefix) && s[:len(prefix)] == prefix\<close>.\<close>

definition HasPrefix :: "string \<Rightarrow> string \<Rightarrow> bool" where
  "HasPrefix s p = (length p \<le> length s \<and> take (length p) s = p)"

text \<open>\<^verbatim>\<open>strings.HasSuffix(s, suffix)\<close>.\<close>

definition HasSuffix :: "string \<Rightarrow> string \<Rightarrow> bool" where
  "HasSuffix s suf = (length suf \<le> length s \<and> drop (length s - length suf) s = suf)"

text \<open>\<^verbatim>\<open>strings.TrimSuffix(s, suffix)\<close>: the suffix is removed once, when it is there.\<close>

definition TrimSuffix :: "string \<Rightarrow> string \<Rightarrow> string" where
  "TrimSuffix s suf = (if HasSuffix s suf then take (length s - length suf) s else s)"

text \<open>\<^verbatim>\<open>strings.Contains(s, substr)\<close>: some position of \<open>s\<close> starts with \<open>substr\<close>.\<close>

fun Contains :: "string \<Rightarrow> string \<Rightarrow> bool" where
  "Contains [] sub = (sub = [])"
| "Contains (c # cs) sub = (HasPrefix (c # cs) sub \<or> Contains cs sub)"

text \<open>
  \<^verbatim>\<open>strings.Split(s, sep)\<close> for a separator of one byte (the sources only split at
  \<^verbatim>\<open>"/"\<close>): the pieces between the separators, never an empty slice;
  \<^verbatim>\<open>Split("", "/")\<close> is \<^verbatim>\<open>[""]\<close>.
\<close>

fun Split :: "string \<Rightarrow> char \<Rightarrow> string list" where
  "Split [] sep = [[]]"
| "Split (c # cs) sep =
     (if c = sep then [] # Split cs sep
      else (case Split cs sep of [] \<Rightarrow> [[c]] | p # ps \<Rightarrow> (c # p) # ps))"

text \<open>\<^verbatim>\<open>strings.Join(elems, sep)\<close>.\<close>

fun Join :: "string list \<Rightarrow> string \<Rightarrow> string" where
  "Join [] sep = []"
| "Join [x] sep = x"
| "Join (x # y # ys) sep = x @ sep @ Join (y # ys) sep"

text \<open>\<^verbatim>\<open>strings.TrimRight(s, "\n")\<close>: every trailing line feed is removed.\<close>

definition TrimRightNewline :: "string \<Rightarrow> string" where
  "TrimRightNewline s = rev (dropWhile (\<lambda>c. c = CHR 0x0A) (rev s))"

text \<open>
  \<^verbatim>\<open>filepath.Base(path)\<close> on Unix, loop by loop:
  \<^verbatim>\<open>
  if path == "" { return "." }
  for len(path) > 0 && os.IsPathSeparator(path[len(path)-1]) { path = path[0 : len(path)-1] }
  i := len(path) - 1
  for i >= 0 && !os.IsPathSeparator(path[i]) { i-- }
  if i >= 0 { path = path[i+1:] }
  if path == "" { return "/" }
  return path
  \<close>
  \<open>scanBack path k\<close> runs the second loop with \<open>k = i + 1\<close>.
\<close>

function stripTrailingSeparators :: "string \<Rightarrow> string" where
  "stripTrailingSeparators path =
     (if path \<noteq> [] \<and> last path = CHR ''/'' then stripTrailingSeparators (butlast path) else path)"
  by pat_completeness auto
termination
  by (relation "measure length") auto

declare stripTrailingSeparators.simps [simp del]

fun scanBack :: "string \<Rightarrow> nat \<Rightarrow> nat" where
  "scanBack path 0 = 0"
| "scanBack path (Suc i) = (if path ! i = CHR ''/'' then Suc i else scanBack path i)"

definition Base :: "string \<Rightarrow> string" where
  "Base path =
     (if path = [] then ''.''
      else let p = stripTrailingSeparators path;
               q = drop (scanBack p (length p)) p
           in if q = [] then ''/'' else q)"

text \<open>The \<^verbatim>\<open>%d\<close> verb of \<^verbatim>\<open>fmt.Sprintf\<close>: a decimal numeral, with a minus sign below zero.\<close>

fun digitsOf :: "nat \<Rightarrow> string" where
  "digitsOf n =
     (if n < 10 then [char_of (48 + n)] else digitsOf (n div 10) @ [char_of (48 + n mod 10)])"

declare digitsOf.simps [simp del]

definition fmtInt :: "int \<Rightarrow> string" where
  "fmtInt i = (if i < 0 then CHR ''-'' # digitsOf (nat (- i)) else digitsOf (nat i))"

section \<open>Package git: remote names\<close>

text \<open>
  \<^verbatim>\<open>
  func BuildRemoteURL(orgRepo string) string {
      if strings.HasPrefix(orgRepo, "git@") || strings.HasPrefix(orgRepo, "https://") {
          return orgRepo
      }
      return fmt.Sprintf("git@github.com:%s.git", orgRepo)
  }
  \<close>
\<close>

definition BuildRemoteURL :: "string \<Rightarrow> string" where
  "BuildRemoteURL orgRepo =
     (if HasPrefix orgRepo ''git@'' \<or> HasPrefix orgRepo ''https://'' then orgRepo
      else ''git@github.com:'' @ orgRepo @ ''.git'')"

text \<open>
  \<^verbatim>\<open>
  func RepoNameFromRemote(remote string) string {
      if !strings.Contains(remote, ":") && strings.Contains(remote, "/") {
          parts := strings.Split(remote, "/")
          return parts[len(parts)-1]
      }
      base := filepath.Base(remote)
      return strings.TrimSuffix(base, ".git")
  }
  \<close>
  \<open>Split\<close> never returns the empty slice, so \<open>parts[len(parts)-1]\<close> is always in range.
\<close>

definition RepoNameFromRemote :: "string \<Rightarrow> string" where
  "RepoNameFromRemote remote =
     (if \<not> Contains remote '':'' \<and> Contains remote ''/'' then last (Split remote (CHR ''/''))
      else TrimSuffix (Base remote) ''.git'')"

text \<open>The part of a string after its last occurrence of a byte (the whole string when the
  byte does not occur): what the specification calls the substring after the last slash.\<close>

definition afterLast :: "char \<Rightarrow> string \<Rightarrow> string" where
  "afterLast c s = rev (takeWhile (\<lambda>x. x \<noteq> c) (rev s))"

section \<open>Workspace configuration\<close>

text \<open>
  Package \<^verbatim>\<open>workspace\<close> is not among the sources; the commands use these fields of
  its two structs: \<^verbatim>\<open>ws.Repos\<close> (a Go map from repo name to \<^verbatim>\<open>RepoDef\<close>),
  \<^verbatim>\<open>ws.DefaultBranch\<close>, \<^verbatim>\<open>repo.Path\<close>, \<^verbatim>\<open>repo.DefaultBranch\<close> and
  \<^verbatim>\<open>repo.Dependencies\<close>. A Go map is finite and has one value per key, hence a finite map.
  (The workspace's default branch is named \<open>WorkspaceDefaultBranch\<close>: a record field is a
  constant, and \<open>DefaultBranch\<close> is the field of \<open>RepoDef\<close>.)
\<close>

record RepoDef =
  Path :: string
  DefaultBranch :: string
  Dependencies :: "string list"

record Workspace =
  Repos :: "(string, RepoDef) fmap"
  WorkspaceDefaultBranch :: string

section \<open>Command run: the dependency resolver\<close>

text \<open>
  \<^verbatim>\<open>
  type depMapping struct { api string; pkg string }
  var modelToAPI = map[string]depMapping{
      "AppModel":      {api: "AppAPI", pkg: "@spark-rewards/sra-sdk"},
      "BusinessModel": {api: "BusinessAPI", pkg: "@spark-rewards/srw-sdk"},
  }
  var apiToModel = map[string]string{
      "AppAPI":      "AppModel",
      "BusinessAPI": "BusinessModel",
  }
  \<close>
\<close>

record depMapping =
  api :: string
  pkg :: string

definition modelToAPI :: "string \<rightharpoonup> depMapping" where
  "modelToAPI =
     [''AppModel'' \<mapsto> \<lparr>api = ''AppAPI'', pkg = ''@spark-rewards/sra-sdk''\<rparr>,
      ''BusinessModel'' \<mapsto> \<lparr>api = ''BusinessAPI'', pkg = ''@spark-rewards/srw-sdk''\<rparr>]"

definition apiToModel :: "string \<rightharpoonup> string" where
  "apiToModel = [''AppAPI'' \<mapsto> ''AppModel'', ''BusinessAPI'' \<mapsto> ''BusinessModel'']"

text \<open>
  \<^verbatim>\<open>
  func containsRun(slice []string, item string) bool {
      for _, s := range slice { if s == item { return true } }
      return false
  }
  \<close>
\<close>

fun containsRun :: "string list \<Rightarrow> string \<Rightarrow> bool" where
  "containsRun [] item = False"
| "containsRun (s # rest) item = (if s = item then True else containsRun rest item)"

text \<open>
  \<^verbatim>\<open>getDepsForRun\<close> keeps two variables that its closure \<^verbatim>\<open>collect\<close> updates: the
  slice \<^verbatim>\<open>deps\<close> and the map \<^verbatim>\<open>seen\<close> (a name is seen when the map holds \<^verbatim>\<open>true\<close> for
  it, so the map is a set of names). The closure is a function from the state before
  a call to the state after it:
  \<^verbatim>\<open>
  collect = func(n string) {
      if seen[n] { return }
      seen[n] = true
      if modelName, isAPI := apiToModel[n]; isAPI {
          if _, exists := ws.Repos[modelName]; exists {
              collect(modelName)
              deps = append(deps, modelName)
          }
      }
      if repo, exists := ws.Repos[n]; exists {
          for _, dep := range repo.Dependencies {
              if _, depExists := ws.Repos[dep]; depExists {
                  collect(dep)
                  if !containsRun(deps, dep) { deps = append(deps, dep) }
              }
          }
      }
  }
  \<close>
  \<open>collectEach\<close> is the \<^verbatim>\<open>for\<close> loop over \<^verbatim>\<open>repo.Dependencies\<close>. The recursion is
  nested (the loop goes on from the state the inner call returns), and it ends because
  every call that does not return at once adds a name to \<open>seen\<close>: the names the
  workspace holds and are not yet seen become fewer.
\<close>

record collectState =
  seen :: "string set"
  deps :: "string list"

function collect :: "Workspace \<Rightarrow> string \<Rightarrow> collectState \<Rightarrow> collectState"
  and collectEach :: "Workspace \<Rightarrow> string list \<Rightarrow> collectState \<Rightarrow> collectState"
where
  "collect ws n st =
     (if n \<in> seen st then st
      else
        let st1 = st\<lparr>seen := insert n (seen st)\<rparr>;
            st2 = (case apiToModel n of
                     None \<Rightarrow> st1
                   | Some modelName \<Rightarrow>
                       if fmlookup (Repos ws) modelName \<noteq> None
                       then (let st' = collect ws modelName st1
                             in st'\<lparr>deps := deps st' @ [modelName]\<rparr>)
                       else st1)
        in case fmlookup (Repos ws) n of
             None \<Rightarrow> st2
           | Some repo \<Rightarrow> collectEach ws (Dependencies repo) st2)"
| "collectEach ws [] st = st"
| "collectEach ws (dep # rest) st =
     (if fmlookup (Repos ws) dep \<noteq> None
      then
        let st' = collect ws dep st
        in collectEach ws rest
             (if containsRun (deps st') dep then st' else st'\<lparr>deps := deps st' @ [dep]\<rparr>)
      else collectEach ws rest st)"
  by pat_completeness auto
termination
proof -
  have mono:
    "collect_collectEach_dom (Inl (ws, n, st)) \<Longrightarrow> insert n (seen st) \<subseteq> seen (collect ws n st)"
    "collect_collectEach_dom (Inr (ws, ds, st)) \<Longrightarrow> seen st \<subseteq> seen (collectEach ws ds st)"
    for ws n st ds
  proof (induction ws n st and ws ds st rule: collect_collectEach.pinduct)
    case (1 ws n st)
    show ?case
    proof (cases "n \<in> seen st")
      case True
      with 1(1) show ?thesis by (simp add: collect.psimps)
    next
      case False
      define st1 where "st1 = st\<lparr>seen := insert n (seen st)\<rparr>"
      define st2 where "st2 = (case apiToModel n of
                     None \<Rightarrow> st1
                   | Some modelName \<Rightarrow>
                       if fmlookup (Repos ws) modelName \<noteq> None
                       then (let st' = collect ws modelName st1
                             in st'\<lparr>deps := deps st' @ [modelName]\<rparr>)
                       else st1)"
      have s2: "insert n (seen st) \<subseteq> seen st2"
      proof (cases "apiToModel n")
        case None
        then show ?thesis by (simp add: st2_def st1_def)
      next
        case (Some m)
        show ?thesis
        proof (cases "fmlookup (Repos ws) m \<noteq> None")
          case True
          from 1(2)[OF False st1_def Some True]
          have "seen st1 \<subseteq> seen (collect ws m st1)" by simp
          then show ?thesis using Some True by (simp add: st2_def st1_def Let_def)
        next
          case False
          then show ?thesis using Some by (simp add: st2_def st1_def)
        qed
      qed
      have res: "collect ws n st = (case fmlookup (Repos ws) n of
             None \<Rightarrow> st2
           | Some repo \<Rightarrow> collectEach ws (Dependencies repo) st2)"
        using False 1(1) by (simp add: collect.psimps st2_def st1_def Let_def split: option.splits)
      show ?thesis
      proof (cases "fmlookup (Repos ws) n")
        case None
        then show ?thesis using s2 res by simp
      next
        case (Some repo)
        from 1(3)[OF False st1_def st2_def Some]
        have "seen st2 \<subseteq> seen (collectEach ws (Dependencies repo) st2)" .
        then show ?thesis using s2 res Some by auto
      qed
    qed
  next
    case (2 ws st)
    then show ?case by (simp add: collectEach.psimps)
  next
    case (3 ws dep rest st)
    show ?case
    proof (cases "fmlookup (Repos ws) dep \<noteq> None")
      case True
      from 3(2)[OF True] have a: "seen st \<subseteq> seen (collect ws dep st)" by simp
      from 3(3)[OF True refl] a show ?thesis
        using True 3(1) by (auto simp: collectEach.psimps Let_def split: if_splits)
    next
      case False
      from 3(4)[OF False] show ?thesis using False 3(1) by (simp add: collectEach.psimps)
    qed
  qed
  have cardm: "card (D - B) \<le> card (D - A)" if "finite D" "A \<subseteq> B" for A B D :: "string set"
    using that by (intro card_mono) auto
  show ?thesis
  proof (relation "inv_image (less_than <*lex*> less_than)
     (\<lambda>x. case x of
        Inl (ws, n, st) \<Rightarrow> (card (insert n (fmdom' (Repos ws)) - seen st), 0::nat)
      | Inr (ws, ds, st) \<Rightarrow> (card (fmdom' (Repos ws) - seen st), Suc (length ds)))", goal_cases)
    case 1
    show ?case by (intro wf_inv_image wf_lex_prod wf_less_than)
  next
    case (2 ws n st x x2)
    have "fmdom' (Repos ws) - insert n (seen st) \<subset> insert n (fmdom' (Repos ws)) - seen st"
      using 2(1) by auto
    then have "card (fmdom' (Repos ws) - insert n (seen st)) < card (insert n (fmdom' (Repos ws)) - seen st)"
      by (intro psubset_card_mono) auto
    moreover have "x2 \<in> fmdom' (Repos ws)" using 2 by (auto simp: fmdom'I)
    ultimately show ?case using 2 by (simp add: insert_absorb)
  next
    case (3 ws n st x xa x2)
    have "insert n (seen st) \<subseteq> seen xa"
    proof (cases "apiToModel n")
      case None
      then show ?thesis using 3 by simp
    next
      case (Some m)
      show ?thesis
      proof (cases "fmlookup (Repos ws) m \<noteq> None")
        case True
        with 3 Some have "collect_collectEach_dom (Inl (ws, m, x))" by simp
        from mono(1)[OF this] show ?thesis using 3(2,3) Some True by (auto simp: Let_def)
      next
        case False
        then show ?thesis using Some 3 by simp
      qed
    qed
    then have "card (fmdom' (Repos ws) - seen xa) \<le> card (fmdom' (Repos ws) - insert n (seen st))"
      by (intro cardm) auto
    moreover have "fmdom' (Repos ws) - insert n (seen st) \<subset> insert n (fmdom' (Repos ws)) - seen st"
      using 3(1) by auto
    then have "card (fmdom' (Repos ws) - insert n (seen st)) < card (insert n (fmdom' (Repos ws)) - seen st)"
      by (intro psubset_card_mono) auto
    ultimately show ?case by simp
  next
    case (4 ws dep rest st)
    then have "dep \<in> fmdom' (Repos ws)" by (auto simp: fmdom'I)
    then show ?case by (simp add: insert_absorb)
  next
    case (5 ws dep rest st x)
    from mono(1)[OF 5(3)] 5(2) have "seen st \<subseteq> seen x" by simp
    then have "card (fmdom' (Repos ws) - seen x) \<le> card (fmdom' (Repos ws) - seen st)"
      by (intro cardm) auto
    then show ?case by (auto simp: le_less)
  next
    case (6 ws dep rest st)
    show ?case by simp
  qed
qed

declare collect.simps [simp del]

text \<open>
  \<^verbatim>\<open>
  func getDepsForRun(ws *workspace.Workspace, name string) []string {
      var deps []string
      seen := make(map[string]bool)
      ...
      collect(name)
      seen[name] = false
      var result []string
      for _, d := range deps { if d != name { result = append(result, d) } }
      return result
  }
  \<close>
  The assignment \<^verbatim>\<open>seen[name] = false\<close> comes after the last call of \<^verbatim>\<open>collect\<close>;
  nothing reads \<^verbatim>\<open>seen\<close> after it.
\<close>

definition getDepsForRun :: "Workspace \<Rightarrow> string \<Rightarrow> string list" where
  "getDepsForRun ws name =
     (let st = collect ws name \<lparr>seen = {}, deps = []\<rparr>
      in filter (\<lambda>d. d \<noteq> name) (deps st))"

text \<open>
  A name has an implicit counterpart in the workspace when \<^verbatim>\<open>apiToModel\<close> maps it to a
  repository the workspace holds (the condition of the first \<^verbatim>\<open>if\<close> of \<^verbatim>\<open>collect\<close>).
\<close>

definition implicitPresent :: "Workspace \<Rightarrow> string \<Rightarrow> bool" where
  "implicitPresent ws n =
     (case apiToModel n of None \<Rightarrow> False | Some modelName \<Rightarrow> fmlookup (Repos ws) modelName \<noteq> None)"

section \<open>The world outside the program\<close>

text \<open>
  The commands read and change a file system and run \<^verbatim>\<open>git\<close> and \<^verbatim>\<open>npm\<close>. That
  world is a parameter: a type \<open>'w\<close> of worlds and a record of the operations on it.
  An operation that only reads returns a value; one that may change the world also
  returns the new world. A Go \<^verbatim>\<open>error\<close> is \<open>None\<close> for \<^verbatim>\<open>nil\<close> and otherwise holds
  the text of \<^verbatim>\<open>err.Error()\<close>.

  Two library functions that read no world are parameters too, \<^verbatim>\<open>filepath.Join\<close>
  and \<^verbatim>\<open>strings.TrimSpace\<close>: nothing is assumed of them, so what is proved holds
  of the functions of the Go library.

  Two kinds of operation on the world are taken as parameters. The first are the
  processes and system calls behind functions whose source is at hand
  (\<^verbatim>\<open>exec.Command("git", ...)\<close>, \<^verbatim>\<open>os.Stat\<close>, \<^verbatim>\<open>os.Lstat\<close>). The second are
  four functions of package
  \<^verbatim>\<open>git\<close> that \<^verbatim>\<open>syncRepoFull\<close> calls and whose source is not at hand:
  \<^verbatim>\<open>GetCurrentBranch\<close>, \<^verbatim>\<open>AheadBehind\<close>, \<^verbatim>\<open>ListLocalBranches\<close> and
  \<^verbatim>\<open>CheckoutQuiet\<close>.
\<close>

type_synonym error = "string option"

text \<open>The result of \<^verbatim>\<open>os.Stat\<close> and \<^verbatim>\<open>os.Lstat\<close>: the file's data, or an error that
  \<^verbatim>\<open>os.IsNotExist\<close> accepts, or another error.\<close>

datatype 'a statResult = StatOk 'a | StatNotExist | StatError

text \<open>What the sources read of an \<^verbatim>\<open>os.FileInfo\<close>: \<^verbatim>\<open>Size()\<close>, \<^verbatim>\<open>ModTime().UnixNano()\<close>
  (both \<^verbatim>\<open>int64\<close>) and \<^verbatim>\<open>Mode()\<close> (a \<^verbatim>\<open>uint32\<close>).\<close>

record FileInfo =
  Size :: int
  ModTimeUnixNano :: int
  Mode :: "32 word"

text \<open>\<^verbatim>\<open>os.ModeSymlink\<close> is bit 27 of the mode (\<^verbatim>\<open>1 << (32 - 1 - 4)\<close>).\<close>

definition ModeSymlink :: "32 word" where
  "ModeSymlink = push_bit 27 1"

text \<open>The processes the commands start that can change the world, as a log records them.\<close>

datatype call =
    GitPull string
  | GitRebase string string
  | GitRebaseAbort string
  | GitCheckout string string
  | NpmLink string
  | NpmLinkPackage string string
  | ShellRun string string

record 'w Sys =
  filepathJoin :: "string list \<Rightarrow> string"
  stringsTrimSpace :: "string \<Rightarrow> string"
  osStat :: "string \<Rightarrow> 'w \<Rightarrow> FileInfo statResult"
  osLstat :: "string \<Rightarrow> 'w \<Rightarrow> FileInfo statResult"
  gitStatusShort :: "string \<Rightarrow> 'w \<Rightarrow> string option"
  gitStatusShortColor :: "string \<Rightarrow> 'w \<Rightarrow> string option"
  gitSymbolicRefOriginHead :: "string \<Rightarrow> 'w \<Rightarrow> string option"
  gitRevParseVerify :: "string \<Rightarrow> string \<Rightarrow> 'w \<Rightarrow> bool"
  gitPull :: "string \<Rightarrow> 'w \<Rightarrow> error \<times> 'w"
  gitRebase :: "string \<Rightarrow> string \<Rightarrow> 'w \<Rightarrow> error \<times> 'w"
  gitRebaseAbort :: "string \<Rightarrow> 'w \<Rightarrow> error \<times> 'w"
  GetCurrentBranch :: "string \<Rightarrow> 'w \<Rightarrow> string"
  AheadBehind :: "string \<Rightarrow> string \<Rightarrow> string \<Rightarrow> 'w \<Rightarrow> int \<times> int"
  ListLocalBranches :: "string \<Rightarrow> 'w \<Rightarrow> string list"
  gitCheckout :: "string \<Rightarrow> string \<Rightarrow> 'w \<Rightarrow> error \<times> 'w"
  npmLinkRun :: "string \<Rightarrow> 'w \<Rightarrow> error \<times> 'w"
  npmLinkPackageRun :: "string \<Rightarrow> string \<Rightarrow> 'w \<Rightarrow> error \<times> 'w"
  shellRun :: "string \<Rightarrow> string \<Rightarrow> 'w \<Rightarrow> error \<times> 'w"

text \<open>
  The state a command runs in: the world, the log of the processes it has started
  (each with the error it returned) and the lines it has printed.
\<close>

record 'w State =
  world :: 'w
  calls :: "(call \<times> error) list"
  stdout :: "string list"

definition run :: "call \<Rightarrow> ('w \<Rightarrow> error \<times> 'w) \<Rightarrow> 'w State \<Rightarrow> error \<times> 'w State" where
  "run c f st =
     (case f (world st) of
        (e, w) \<Rightarrow> (e, st\<lparr>world := w, calls := calls st @ [(c, e)]\<rparr>))"

definition printLine :: "string \<Rightarrow> 'w State \<Rightarrow> 'w State" where
  "printLine s st = st\<lparr>stdout := stdout st @ [s]\<rparr>"

section \<open>Package git: status, rebase, default branch\<close>

text \<open>
  \<^verbatim>\<open>
  func Status(repoDir string) (string, error) {
      cmd := exec.Command("git", "status", "--short")
      cmd.Dir = repoDir
      out, err := cmd.Output()
      if err != nil { return "", err }
      return strings.TrimSpace(string(out)), nil
  }
  func StatusShortColor(repoDir string) (string, error) {
      ... exec.Command("git", "status", "--short", "--color=always") ...
      return strings.TrimRight(string(out), "\n"), nil
  }
  func IsDirty(repoDir string) bool {
      status, err := Status(repoDir)
      if err != nil { return false }
      return status != ""
  }
  \<close>
  \<open>None\<close> stands for the result \<^verbatim>\<open>("", err)\<close>.
\<close>

definition Status :: "'w Sys \<Rightarrow> string \<Rightarrow> 'w \<Rightarrow> string option" where
  "Status sys repoDir w = map_option (stringsTrimSpace sys) (gitStatusShort sys repoDir w)"

definition StatusShortColor :: "'w Sys \<Rightarrow> string \<Rightarrow> 'w \<Rightarrow> string option" where
  "StatusShortColor sys repoDir w = map_option TrimRightNewline (gitStatusShortColor sys repoDir w)"

definition IsDirty :: "'w Sys \<Rightarrow> string \<Rightarrow> 'w \<Rightarrow> bool" where
  "IsDirty sys repoDir w = (case Status sys repoDir w of None \<Rightarrow> False | Some s \<Rightarrow> s \<noteq> [])"

text \<open>
  \<^verbatim>\<open>
  func Pull(repoDir string) error            { ... exec.Command("git", "pull") ... }
  func RebaseQuiet(repoDir, upstream string) error { return runQuiet(repoDir, "git", "rebase", upstream) }
  func RebaseAbortQuiet(repoDir string) error      { return runQuiet(repoDir, "git", "rebase", "--abort") }
  \<close>
  \<^verbatim>\<open>CheckoutQuiet(repoDir, branch)\<close> is the fourth; its source is not at hand, and it is
  taken to start the one process \<open>gitCheckout\<close>.
\<close>

definition Pull :: "'w Sys \<Rightarrow> string \<Rightarrow> 'w State \<Rightarrow> error \<times> 'w State" where
  "Pull sys repoDir = run (GitPull repoDir) (gitPull sys repoDir)"

definition RebaseQuiet :: "'w Sys \<Rightarrow> string \<Rightarrow> string \<Rightarrow> 'w State \<Rightarrow> error \<times> 'w State" where
  "RebaseQuiet sys repoDir upstream = run (GitRebase repoDir upstream) (gitRebase sys repoDir upstream)"

definition RebaseAbortQuiet :: "'w Sys \<Rightarrow> string \<Rightarrow> 'w State \<Rightarrow> error \<times> 'w State" where
  "RebaseAbortQuiet sys repoDir = run (GitRebaseAbort repoDir) (gitRebaseAbort sys repoDir)"

definition CheckoutQuiet :: "'w Sys \<Rightarrow> string \<Rightarrow> string \<Rightarrow> 'w State \<Rightarrow> error \<times> 'w State" where
  "CheckoutQuiet sys repoDir b = run (GitCheckout repoDir b) (gitCheckout sys repoDir b)"

text \<open>
  \<^verbatim>\<open>
  func GetDefaultBranch(repoDir string) string {
      cmd := exec.Command("git", "symbolic-ref", "refs/remotes/origin/HEAD")
      cmd.Dir = repoDir
      out, err := cmd.Output()
      if err == nil {
          ref := strings.TrimSpace(string(out))
          parts := strings.Split(ref, "/")
          if len(parts) > 0 { return parts[len(parts)-1] }
      }
      for _, branch := range []string{"main", "prod"} {
          cmd := exec.Command("git", "rev-parse", "--verify", "origin/"+branch)
          cmd.Dir = repoDir
          if err := cmd.Run(); err == nil { return branch }
      }
      return "main"
  }
  \<close>
\<close>

fun probeBranches :: "'w Sys \<Rightarrow> string \<Rightarrow> 'w \<Rightarrow> string list \<Rightarrow> string option" where
  "probeBranches sys repoDir w [] = None"
| "probeBranches sys repoDir w (b # bs) =
     (if gitRevParseVerify sys repoDir (''origin/'' @ b) w then Some b
      else probeBranches sys repoDir w bs)"

definition probeDefault :: "'w Sys \<Rightarrow> string \<Rightarrow> 'w \<Rightarrow> string" where
  "probeDefault sys repoDir w =
     (case probeBranches sys repoDir w [''main'', ''prod''] of Some b \<Rightarrow> b | None \<Rightarrow> ''main'')"

definition GetDefaultBranch :: "'w Sys \<Rightarrow> string \<Rightarrow> 'w \<Rightarrow> string" where
  "GetDefaultBranch sys repoDir w =
     (case gitSymbolicRefOriginHead sys repoDir w of
        Some out \<Rightarrow>
          (let ref = stringsTrimSpace sys out; parts = Split ref (CHR ''/'')
           in if length parts > 0 then last parts else probeDefault sys repoDir w)
      | None \<Rightarrow> probeDefault sys repoDir w)"

section \<open>Command sync\<close>

text \<open>The flags of the command are global variables of the program; the functions below
  read three of them.\<close>

record syncFlags =
  syncBranch :: string
  syncNoRebase :: bool
  syncInstall :: bool

text \<open>
  \<^verbatim>\<open>
  func getTargetBranch(ws *workspace.Workspace, repo *workspace.RepoDef, repoDir string) string {
      if syncBranch != "" { return syncBranch }
      if repo != nil && repo.DefaultBranch != "" { return repo.DefaultBranch }
      if ws.DefaultBranch != "" { return ws.DefaultBranch }
      return git.GetDefaultBranch(repoDir)
  }
  \<close>
  The pointer \<^verbatim>\<open>repo\<close> is an option (\<open>None\<close> for \<^verbatim>\<open>nil\<close>).
\<close>

definition getTargetBranch ::
  "syncFlags \<Rightarrow> 'w Sys \<Rightarrow> Workspace \<Rightarrow> RepoDef option \<Rightarrow> string \<Rightarrow> 'w \<Rightarrow> string" where
  "getTargetBranch flags sys ws repo repoDir w =
     (if syncBranch flags \<noteq> [] then syncBranch flags
      else if repo \<noteq> None \<and> DefaultBranch (the repo) \<noteq> [] then DefaultBranch (the repo)
      else if WorkspaceDefaultBranch ws \<noteq> [] then WorkspaceDefaultBranch ws
      else GetDefaultBranch sys repoDir w)"

text \<open>
  \<^verbatim>\<open>
  type repoSyncResult struct {
      name            string
      branch          string
      status          string // "synced", "skipped", "failed"
      message         string
      ahead           int
      behind          int
      dirty           bool
      dirtyStatus     string
      lockfileChanged bool
  }
  \<close>
\<close>

record repoSyncResult =
  name :: string
  branch :: string
  status :: string
  message :: string
  ahead :: int
  behind :: int
  dirty :: bool
  dirtyStatus :: string
  lockfileChanged :: bool

text \<open>
  \<^verbatim>\<open>
  func fileHash(path string) string {
      info, err := os.Stat(path)
      if err != nil { return "" }
      // Use size+modtime as a cheap hash
      return fmt.Sprintf("%d-%d", info.Size(), info.ModTime().UnixNano())
  }
  \<close>
\<close>

definition fileHash :: "'w Sys \<Rightarrow> string \<Rightarrow> 'w \<Rightarrow> string" where
  "fileHash sys path w =
     (case osStat sys path w of
        StatOk info \<Rightarrow> fmtInt (Size info) @ ''-'' @ fmtInt (ModTimeUnixNano info)
      | StatNotExist \<Rightarrow> []
      | StatError \<Rightarrow> [])"

text \<open>
  The loop of \<^verbatim>\<open>syncRepoFull\<close> over the other local branches; its state is the two
  slices and the state of the world:
  \<^verbatim>\<open>
  for _, branch := range branches {
      if branch == currentBranch || branch == targetBranch { continue }
      // Checkout, rebase, come back
      if err := git.CheckoutQuiet(repoDir, branch); err != nil { continue }
      if err := git.RebaseQuiet(repoDir, upstream); err != nil {
          git.RebaseAbortQuiet(repoDir)
          failedOthers = append(failedOthers, branch)
      } else {
          rebasedOthers = append(rebasedOthers, branch)
      }
  }
  \<close>
\<close>

fun rebaseOthers ::
  "'w Sys \<Rightarrow> string \<Rightarrow> string \<Rightarrow> string \<Rightarrow> string \<Rightarrow> string list
     \<Rightarrow> string list \<times> string list \<times> 'w State \<Rightarrow> string list \<times> string list \<times> 'w State" where
  "rebaseOthers sys repoDir upstream currentBranch targetBranch [] acc = acc"
| "rebaseOthers sys repoDir upstream currentBranch targetBranch (b # bs) (rebasedOthers, failedOthers, st) =
     (if b = currentBranch \<or> b = targetBranch
      then rebaseOthers sys repoDir upstream currentBranch targetBranch bs (rebasedOthers, failedOthers, st)
      else
        (case CheckoutQuiet sys repoDir b st of
           (Some e, st1) \<Rightarrow>
             rebaseOthers sys repoDir upstream currentBranch targetBranch bs (rebasedOthers, failedOthers, st1)
         | (None, st1) \<Rightarrow>
             (case RebaseQuiet sys repoDir upstream st1 of
                (Some e, st2) \<Rightarrow>
                  rebaseOthers sys repoDir upstream currentBranch targetBranch bs
                    (rebasedOthers, failedOthers @ [b], snd (RebaseAbortQuiet sys repoDir st2))
              | (None, st2) \<Rightarrow>
                  rebaseOthers sys repoDir upstream currentBranch targetBranch bs
                    (rebasedOthers @ [b], failedOthers, st2))))"

text \<open>
  The message of a synced repository:
  \<^verbatim>\<open>
  if len(rebasedOthers) > 0 {
      result.message = fmt.Sprintf("+%d branches rebased", len(rebasedOthers))
  }
  if len(failedOthers) > 0 {
      if result.message != "" { result.message += ", " }
      result.message += fmt.Sprintf("%d branch rebase(s) failed: %s",
          len(failedOthers), strings.Join(failedOthers, ", "))
  }
  \<close>
\<close>

definition syncedMessage :: "string list \<Rightarrow> string list \<Rightarrow> string" where
  "syncedMessage rebasedOthers failedOthers =
     (let m1 = (if length rebasedOthers > 0
                then ''+'' @ fmtInt (int (length rebasedOthers)) @ '' branches rebased''
                else []);
          m2 = (if m1 \<noteq> [] then m1 @ '', '' else m1)
      in if length failedOthers > 0
         then m2 @ fmtInt (int (length failedOthers)) @ '' branch rebase(s) failed: ''
                 @ Join failedOthers '', ''
         else m1)"

text \<open>
  \<^verbatim>\<open>
  func syncRepoFull(wsPath string, ws *workspace.Workspace, name string,
                    repo workspace.RepoDef, repoDir string) repoSyncResult {
      currentBranch := git.GetCurrentBranch(repoDir)
      targetBranch := getTargetBranch(ws, &repo, repoDir)
      upstream := fmt.Sprintf("origin/%s", targetBranch)
      result := repoSyncResult{name: name, branch: currentBranch}
      // Get ahead/behind for current branch vs origin/main
      result.ahead, result.behind = git.AheadBehind(repoDir, currentBranch, upstream)
      // Check dirty
      if git.IsDirty(repoDir) {
          result.dirty = true
          status, err := git.StatusShortColor(repoDir)
          if err != nil || status == "" { status, _ = git.Status(repoDir) }
          result.dirtyStatus = status
          result.status = "skipped"
          result.message = "dirty working tree"
          return result
      }
      if syncNoRebase {
          if err := git.Pull(repoDir); err != nil {
              result.status = "failed"
              result.message = err.Error()
              return result
          }
          result.status = "synced"
          return result
      }
      // Record package-lock hash before rebase
      lockBefore := fileHash(filepath.Join(repoDir, "package-lock.json"))
      // Get all local branches
      branches := git.ListLocalBranches(repoDir)
      // Rebase current branch first
      if err := git.RebaseQuiet(repoDir, upstream); err != nil {
          git.RebaseAbortQuiet(repoDir)
          result.status = "failed"
          result.message = fmt.Sprintf("rebase %s onto %s failed", currentBranch, upstream)
          return result
      }
      // Rebase other local branches onto main
      ... the loop above ...
      // Return to original branch
      git.CheckoutQuiet(repoDir, currentBranch)
      // Check if package-lock changed
      lockAfter := fileHash(filepath.Join(repoDir, "package-lock.json"))
      result.lockfileChanged = lockBefore != lockAfter
      // Recompute ahead/behind after rebase
      result.ahead, result.behind = git.AheadBehind(repoDir, currentBranch, upstream)
      result.status = "synced"
      ... the message above ...
      return result
  }
  \<close>
  The function is cut at its three early returns: \<open>dirtyResult\<close> is the body of the
  dirty check, \<open>pullOnly\<close> the body of the no-rebase mode, \<open>rebaseAll\<close> everything after
  them.
\<close>

definition dirtyResult :: "'w Sys \<Rightarrow> string \<Rightarrow> repoSyncResult \<Rightarrow> 'w \<Rightarrow> repoSyncResult" where
  "dirtyResult sys repoDir result w =
     (let colour = StatusShortColor sys repoDir w;
          statusText = (case colour of
                          None \<Rightarrow> (case Status sys repoDir w of None \<Rightarrow> [] | Some s \<Rightarrow> s)
                        | Some s \<Rightarrow>
                            if s = [] then (case Status sys repoDir w of None \<Rightarrow> [] | Some s' \<Rightarrow> s')
                            else s)
      in result\<lparr>dirty := True, dirtyStatus := statusText, status := ''skipped'',
                message := ''dirty working tree''\<rparr>)"

definition pullOnly :: "'w Sys \<Rightarrow> string \<Rightarrow> repoSyncResult \<Rightarrow> 'w State \<Rightarrow> repoSyncResult \<times> 'w State" where
  "pullOnly sys repoDir result st =
     (case Pull sys repoDir st of
        (Some e, st1) \<Rightarrow> (result\<lparr>status := ''failed'', message := e\<rparr>, st1)
      | (None, st1) \<Rightarrow> (result\<lparr>status := ''synced''\<rparr>, st1))"

definition rebaseAll ::
  "'w Sys \<Rightarrow> string \<Rightarrow> string \<Rightarrow> string \<Rightarrow> string \<Rightarrow> repoSyncResult \<Rightarrow> 'w State
     \<Rightarrow> repoSyncResult \<times> 'w State" where
  "rebaseAll sys repoDir currentBranch targetBranch upstream result st =
     (let lockBefore = fileHash sys (filepathJoin sys [repoDir, ''package-lock.json'']) (world st);
          branches = ListLocalBranches sys repoDir (world st)
      in case RebaseQuiet sys repoDir upstream st of
           (Some e, st1) \<Rightarrow>
             (result\<lparr>status := ''failed'',
                     message := ''rebase '' @ currentBranch @ '' onto '' @ upstream @ '' failed''\<rparr>,
              snd (RebaseAbortQuiet sys repoDir st1))
         | (None, st1) \<Rightarrow>
             (case rebaseOthers sys repoDir upstream currentBranch targetBranch branches ([], [], st1) of
                (rebasedOthers, failedOthers, st2) \<Rightarrow>
                  (let st3 = snd (CheckoutQuiet sys repoDir currentBranch st2);
                       lockAfter = fileHash sys (filepathJoin sys [repoDir, ''package-lock.json'']) (world st3);
                       ab = AheadBehind sys repoDir currentBranch upstream (world st3)
                   in (result\<lparr>lockfileChanged := (lockBefore \<noteq> lockAfter),
                              ahead := fst ab, behind := snd ab,
                              status := ''synced'',
                              message := syncedMessage rebasedOthers failedOthers\<rparr>,
                       st3))))"

definition syncRepoFull ::
  "syncFlags \<Rightarrow> 'w Sys \<Rightarrow> string \<Rightarrow> Workspace \<Rightarrow> string \<Rightarrow> RepoDef \<Rightarrow> string \<Rightarrow> 'w State
     \<Rightarrow> repoSyncResult \<times> 'w State" where
  "syncRepoFull flags sys wsPath ws repoName repo repoDir st =
     (let currentBranch = GetCurrentBranch sys repoDir (world st);
          targetBranch = getTargetBranch flags sys ws (Some repo) repoDir (world st);
          upstream = ''origin/'' @ targetBranch;
          ab = AheadBehind sys repoDir currentBranch upstream (world st);
          result = \<lparr>name = repoName, branch = currentBranch, status = [], message = [],
                    ahead = fst ab, behind = snd ab, dirty = False, dirtyStatus = [],
                    lockfileChanged = False\<rparr>
      in if IsDirty sys repoDir (world st) then (dirtyResult sys repoDir result (world st), st)
         else if syncNoRebase flags then pullOnly sys repoDir result st
         else rebaseAll sys repoDir currentBranch targetBranch upstream result st)"

text \<open>
  The precedence chain of the target branch, as the specification words it: the
  override of the run when it is not empty, else the default branch of the repository
  when it is not empty, else the default branch of the workspace when it is not empty,
  else the default branch the remote advertises, else \<^verbatim>\<open>main\<close>.

  The branch the remote advertises is read from \<^verbatim>\<open>origin/HEAD\<close>:
  \<^verbatim>\<open>git symbolic-ref refs/remotes/origin/HEAD\<close> prints the ref
  \<^verbatim>\<open>refs/remotes/origin/<branch>\<close>, and the advertised branch is \<^verbatim>\<open><branch>\<close>,
  whole (a branch name may hold slashes). When \<^verbatim>\<open>origin/HEAD\<close> cannot be read, it is
  \<^verbatim>\<open>main\<close> if \<^verbatim>\<open>origin/main\<close> exists, else \<^verbatim>\<open>prod\<close> if \<^verbatim>\<open>origin/prod\<close>
  exists.
\<close>

definition originPrefix :: string where
  "originPrefix = ''refs/remotes/origin/''"

definition advertisedBranch :: "string \<Rightarrow> string" where
  "advertisedBranch ref =
     (if HasPrefix ref originPrefix then drop (length originPrefix) ref else ref)"

definition targetBranchPrecedence ::
  "syncFlags \<Rightarrow> 'w Sys \<Rightarrow> Workspace \<Rightarrow> RepoDef \<Rightarrow> string \<Rightarrow> 'w \<Rightarrow> string" where
  "targetBranchPrecedence flags sys ws repo repoDir w =
     (if syncBranch flags \<noteq> [] then syncBranch flags
      else if DefaultBranch repo \<noteq> [] then DefaultBranch repo
      else if WorkspaceDefaultBranch ws \<noteq> [] then WorkspaceDefaultBranch ws
      else (case gitSymbolicRefOriginHead sys repoDir w of
              Some out \<Rightarrow> advertisedBranch (stringsTrimSpace sys out)
            | None \<Rightarrow>
                if gitRevParseVerify sys repoDir ''origin/main'' w then ''main''
                else if gitRevParseVerify sys repoDir ''origin/prod'' w then ''prod''
                else ''main''))"

text \<open>
  After the rebase phase, \<^verbatim>\<open>syncAllRepos\<close> and \<^verbatim>\<open>syncRepo\<close> install the dependencies
  of the repositories whose lockfile changed:
  \<^verbatim>\<open>
  // in syncAllRepos, when syncInstall is set
  for _, r := range results {
      if !r.lockfileChanged { continue }
      repo := ws.Repos[r.name]
      repoDir := filepath.Join(wsPath, repo.Path)
      if _, err := os.Stat(filepath.Join(repoDir, "package.json")); os.IsNotExist(err) { continue }
      fmt.Printf("  npm install %s...", r.name)
      if err := runSyncCmd(repoDir, "npm install", wsEnv); err != nil {
          fmt.Printf(" (cross) %v\n", err)
      } else {
          fmt.Printf(" (tick)\n")
          installed++
      }
  }

  // in syncRepo
  if syncInstall && result.lockfileChanged { installRepo(wsPath, ws, name, repoDir) }

  func installRepo(wsPath string, ws *workspace.Workspace, name, repoDir string) {
      if _, err := os.Stat(filepath.Join(repoDir, "package.json")); os.IsNotExist(err) { return }
      wsEnv := buildSyncEnv(wsPath, ws)
      fmt.Printf("  npm install %s...", name)
      if err := runSyncCmd(repoDir, "npm install", wsEnv); err != nil { ... } else { ... }
  }
  \<close>
  \<^verbatim>\<open>runSyncCmd(dir, command, env)\<close> starts a login shell that runs the command in the
  directory; the environment it passes is left out of the model. The two marks the
  program prints (written \<^verbatim>\<open>(cross)\<close> and \<^verbatim>\<open>(tick)\<close> above) are the seven bytes
  each literal has in the source file. Reading a Go map at a key it does not hold gives
  the zero value of the struct.
\<close>

definition zeroRepoDef :: RepoDef where
  "zeroRepoDef = \<lparr>Path = [], DefaultBranch = [], Dependencies = []\<rparr>"

definition reposAt :: "Workspace \<Rightarrow> string \<Rightarrow> RepoDef" where
  "reposAt ws k = (case fmlookup (Repos ws) k of None \<Rightarrow> zeroRepoDef | Some r \<Rightarrow> r)"

definition runSyncCmd :: "'w Sys \<Rightarrow> string \<Rightarrow> string \<Rightarrow> 'w State \<Rightarrow> error \<times> 'w State" where
  "runSyncCmd sys dir command = run (ShellRun dir command) (shellRun sys dir command)"

definition crossMark :: string where
  "crossMark = [CHR 0xC3, CHR 0xA2, CHR 0xC5, CHR 0x93, CHR 0xE2, CHR 0x80, CHR 0x94]"

definition tickMark :: string where
  "tickMark = [CHR 0xC3, CHR 0xA2, CHR 0xC5, CHR 0x93, CHR 0xE2, CHR 0x80, CHR 0x9C]"

definition npmInstallIn :: "'w Sys \<Rightarrow> string \<Rightarrow> string \<Rightarrow> 'w State \<Rightarrow> bool \<times> 'w State" where
  "npmInstallIn sys repoName repoDir st =
     (let st1 = printLine (''  npm install '' @ repoName @ ''...'') st
      in case runSyncCmd sys repoDir ''npm install'' st1 of
           (Some e, st2) \<Rightarrow> (False, printLine ('' '' @ crossMark @ '' '' @ e @ [CHR 0x0A]) st2)
         | (None, st2) \<Rightarrow> (True, printLine ('' '' @ tickMark @ [CHR 0x0A]) st2))"

text \<open>One turn of the loop of \<^verbatim>\<open>syncAllRepos\<close>, on the counter \<^verbatim>\<open>installed\<close> and the state.\<close>

definition installStep ::
  "'w Sys \<Rightarrow> string \<Rightarrow> Workspace \<Rightarrow> repoSyncResult \<Rightarrow> nat \<times> 'w State \<Rightarrow> nat \<times> 'w State" where
  "installStep sys wsPath ws r acc =
     (if \<not> lockfileChanged r then acc
      else
        let repo = reposAt ws (name r);
            repoDir = filepathJoin sys [wsPath, Path repo]
        in if osStat sys (filepathJoin sys [repoDir, ''package.json'']) (world (snd acc)) = StatNotExist
           then acc
           else (case npmInstallIn sys (name r) repoDir (snd acc) of
                   (ok, st1) \<Rightarrow> (if ok then Suc (fst acc) else fst acc, st1)))"

fun installLoop ::
  "'w Sys \<Rightarrow> string \<Rightarrow> Workspace \<Rightarrow> repoSyncResult list \<Rightarrow> nat \<times> 'w State \<Rightarrow> nat \<times> 'w State" where
  "installLoop sys wsPath ws [] acc = acc"
| "installLoop sys wsPath ws (r # rs) acc = installLoop sys wsPath ws rs (installStep sys wsPath ws r acc)"

definition installRepo :: "'w Sys \<Rightarrow> string \<Rightarrow> string \<Rightarrow> 'w State \<Rightarrow> 'w State" where
  "installRepo sys repoName repoDir st =
     (if osStat sys (filepathJoin sys [repoDir, ''package.json'']) (world st) = StatNotExist then st
      else snd (npmInstallIn sys repoName repoDir st))"

text \<open>The install step of \<^verbatim>\<open>syncRepo\<close>, after \<^verbatim>\<open>syncRepoFull\<close> has returned \<open>result\<close>.\<close>

definition syncRepoInstall ::
  "syncFlags \<Rightarrow> 'w Sys \<Rightarrow> string \<Rightarrow> string \<Rightarrow> repoSyncResult \<Rightarrow> 'w State \<Rightarrow> 'w State" where
  "syncRepoInstall flags sys repoName repoDir result st =
     (if syncInstall flags \<and> lockfileChanged result then installRepo sys repoName repoDir st else st)"

section \<open>Package npm and the link step of command run\<close>

text \<open>
  \<^verbatim>\<open>
  const (
      SmithyBuildBase = "smithy/build/smithyprojections/smithy/source"
      SmithyBuildPath = SmithyBuildBase + "/typescript-ssdk-codegen"
  )
  func IsBuilt(modelDir string) bool {
      buildDir := filepath.Join(modelDir, SmithyBuildPath)
      packageJSON := filepath.Join(buildDir, "package.json")
      distTypes := filepath.Join(buildDir, "dist-types")
      if _, err := os.Stat(packageJSON); err != nil { return false }
      if _, err := os.Stat(distTypes); err != nil { return false }
      return true
  }
  func BuildOutputDir(modelDir string) string { return filepath.Join(modelDir, SmithyBuildPath) }
  func IsLinked(dir, pkg string) bool {
      nodeModulesPath := filepath.Join(dir, "node_modules", pkg)
      info, err := os.Lstat(nodeModulesPath)
      if err != nil { return false }
      return info.Mode()&os.ModeSymlink != 0
  }
  func Link(dir string, ...) error        { ... exec.Command("npm", "link") ... }
  func LinkPackage(dir, pkg string, ...) error { ... exec.Command("npm", "link", pkg) ... }
  \<close>
\<close>

definition SmithyBuildBase :: string where
  "SmithyBuildBase = ''smithy/build/smithyprojections/smithy/source''"

definition SmithyBuildPath :: string where
  "SmithyBuildPath = SmithyBuildBase @ ''/typescript-ssdk-codegen''"

definition statFails :: "'a statResult \<Rightarrow> bool" where
  "statFails r = (case r of StatOk info \<Rightarrow> False | StatNotExist \<Rightarrow> True | StatError \<Rightarrow> True)"

definition IsBuilt :: "'w Sys \<Rightarrow> string \<Rightarrow> 'w \<Rightarrow> bool" where
  "IsBuilt sys modelDir w =
     (let buildDir = filepathJoin sys [modelDir, SmithyBuildPath];
          packageJSON = filepathJoin sys [buildDir, ''package.json''];
          distTypes = filepathJoin sys [buildDir, ''dist-types'']
      in if statFails (osStat sys packageJSON w) then False
         else if statFails (osStat sys distTypes w) then False
         else True)"

definition BuildOutputDir :: "'w Sys \<Rightarrow> string \<Rightarrow> string" where
  "BuildOutputDir sys modelDir = filepathJoin sys [modelDir, SmithyBuildPath]"

definition IsLinked :: "'w Sys \<Rightarrow> string \<Rightarrow> string \<Rightarrow> 'w \<Rightarrow> bool" where
  "IsLinked sys dir pkgName w =
     (case osLstat sys (filepathJoin sys [dir, ''node_modules'', pkgName]) w of
        StatOk info \<Rightarrow> (Mode info AND ModeSymlink) \<noteq> 0
      | StatNotExist \<Rightarrow> False
      | StatError \<Rightarrow> False)"

definition Link :: "'w Sys \<Rightarrow> string \<Rightarrow> 'w State \<Rightarrow> error \<times> 'w State" where
  "Link sys dir = run (NpmLink dir) (npmLinkRun sys dir)"

definition LinkPackage :: "'w Sys \<Rightarrow> string \<Rightarrow> string \<Rightarrow> 'w State \<Rightarrow> error \<times> 'w State" where
  "LinkPackage sys dir pkgName = run (NpmLinkPackage dir pkgName) (npmLinkPackageRun sys dir pkgName)"

text \<open>
  \<^verbatim>\<open>
  func autoLinkDeps(wsPath string, ws *workspace.Workspace, name string) error {
      modelName, isAPI := apiToModel[name]
      if !isAPI { return nil }
      modelRepo, exists := ws.Repos[modelName]
      if !exists { return nil }
      modelDir := filepath.Join(wsPath, modelRepo.Path)
      apiDir := filepath.Join(wsPath, ws.Repos[name].Path)
      mapping := modelToAPI[modelName]
      if !npm.IsBuilt(modelDir) {
          fmt.Printf("Using published %s (local not built)\n", mapping.pkg)
          return nil
      }
      if npm.IsLinked(apiDir, mapping.pkg) {
          fmt.Printf("Using local %s (already linked)\n", modelName)
          return nil
      }
      fmt.Printf("Linking local %s -> %s...\n", modelName, name)
      buildDir := npm.BuildOutputDir(modelDir)
      if err := npm.Link(buildDir); err != nil {
          return fmt.Errorf("npm link in %s failed: %w", modelName, err)
      }
      if err := npm.LinkPackage(apiDir, mapping.pkg); err != nil {
          return fmt.Errorf("npm link %s failed: %w", mapping.pkg, err)
      }
      fmt.Printf("Linked: %s now uses local %s\n", name, modelName)
      return nil
  }
  \<close>
  The program tells the outcomes apart by what it prints and returns: \<^verbatim>\<open>nil\<close> after
  the line "Using published ..." or "Using local ... (already linked)" is a skip,
  \<^verbatim>\<open>nil\<close> after the line "Linked: ..." is the link made, an error is the failure.
\<close>

definition zeroDepMapping :: depMapping where
  "zeroDepMapping = \<lparr>api = [], pkg = []\<rparr>"

definition alreadyLinkedLine :: "string \<Rightarrow> string" where
  "alreadyLinkedLine modelName = ''Using local '' @ modelName @ '' (already linked)'' @ [CHR 0x0A]"

definition linkedLine :: "string \<Rightarrow> string \<Rightarrow> string" where
  "linkedLine repoName modelName =
     ''Linked: '' @ repoName @ '' now uses local '' @ modelName @ [CHR 0x0A]"

definition autoLinkDeps ::
  "'w Sys \<Rightarrow> string \<Rightarrow> Workspace \<Rightarrow> string \<Rightarrow> 'w State \<Rightarrow> error \<times> 'w State" where
  "autoLinkDeps sys wsPath ws repoName st =
     (case apiToModel repoName of
        None \<Rightarrow> (None, st)
      | Some modelName \<Rightarrow>
          (case fmlookup (Repos ws) modelName of
             None \<Rightarrow> (None, st)
           | Some modelRepo \<Rightarrow>
               (let modelDir = filepathJoin sys [wsPath, Path modelRepo];
                    apiDir = filepathJoin sys [wsPath, Path (reposAt ws repoName)];
                    mapping = (case modelToAPI modelName of None \<Rightarrow> zeroDepMapping | Some m \<Rightarrow> m)
                in if \<not> IsBuilt sys modelDir (world st)
                   then (None, printLine (''Using published '' @ pkg mapping @ '' (local not built)''
                                           @ [CHR 0x0A]) st)
                   else if IsLinked sys apiDir (pkg mapping) (world st)
                   then (None, printLine (alreadyLinkedLine modelName) st)
                   else
                     (let st1 = printLine (''Linking local '' @ modelName @ '' -> '' @ repoName
                                            @ ''...'' @ [CHR 0x0A]) st;
                          buildDir = BuildOutputDir sys modelDir
                      in case Link sys buildDir st1 of
                           (Some e, st2) \<Rightarrow>
                             (Some (''npm link in '' @ modelName @ '' failed: '' @ e), st2)
                         | (None, st2) \<Rightarrow>
                             (case LinkPackage sys apiDir (pkg mapping) st2 of
                                (Some e, st3) \<Rightarrow>
                                  (Some (''npm link '' @ pkg mapping @ '' failed: '' @ e), st3)
                              | (None, st3) \<Rightarrow>
                                  (None, printLine (linkedLine repoName modelName) st3))))))"

section \<open>An example world\<close>

text \<open>
  A small world on which the functions above can be run: a repository with a current
  branch, its local branches and the text \<^verbatim>\<open>git status --short\<close> prints; a table of the
  files that exist; and, for \<^verbatim>\<open>git checkout\<close> and \<^verbatim>\<open>git rebase\<close>, a script of the
  outcomes of their next runs (\<open>True\<close> for success; a run past the end of the script
  succeeds). A process can fail for reasons the program does not control (a conflict, a
  lock another process holds), and the script says when. A checkout that succeeds makes
  its branch the current one; a checkout of a branch that does not exist fails. As in
  git, the current branch reads \<^verbatim>\<open>HEAD\<close> when no branch is checked out (what
  \<^verbatim>\<open>git rev-parse --abbrev-ref HEAD\<close> prints on a detached head), and a checkout of
  \<^verbatim>\<open>HEAD\<close> succeeds and changes nothing. The world also holds what
  \<^verbatim>\<open>git symbolic-ref refs/remotes/origin/HEAD\<close> prints. Paths are joined with a
  slash, white space is trimmed byte by byte (which is \<^verbatim>\<open>strings.TrimSpace\<close> on the
  ASCII texts of the examples), and \<^verbatim>\<open>npm link <pkg>\<close> adds the symbolic link
  \<^verbatim>\<open>node_modules/<pkg>\<close> to the table of files.
\<close>

record exampleWorld =
  headBranch :: string
  localBranches :: "string list"
  statusText :: string
  files :: "(string \<times> FileInfo) list"
  checkoutScript :: "bool list"
  rebaseScript :: "bool list"
  originHead :: "string option"

definition isAsciiSpace :: "char \<Rightarrow> bool" where
  "isAsciiSpace c =
     (c = CHR 0x09 \<or> c = CHR 0x0A \<or> c = CHR 0x0B \<or> c = CHR 0x0C \<or> c = CHR 0x0D \<or> c = CHR '' '')"

definition trimAsciiSpace :: "string \<Rightarrow> string" where
  "trimAsciiSpace s = rev (dropWhile isAsciiSpace (rev (dropWhile isAsciiSpace s)))"

definition nextOutcome :: "bool list \<Rightarrow> bool \<times> bool list" where
  "nextOutcome script = (case script of [] \<Rightarrow> (True, []) | ok # rest \<Rightarrow> (ok, rest))"

definition exampleStat :: "string \<Rightarrow> exampleWorld \<Rightarrow> FileInfo statResult" where
  "exampleStat path w = (case map_of (files w) path of None \<Rightarrow> StatNotExist | Some info \<Rightarrow> StatOk info)"

definition exampleCheckout :: "string \<Rightarrow> string \<Rightarrow> exampleWorld \<Rightarrow> error \<times> exampleWorld" where
  "exampleCheckout repoDir b w =
     (case nextOutcome (checkoutScript w) of
        (ok, rest) \<Rightarrow>
          if ok \<and> b = ''HEAD'' then (None, w\<lparr>checkoutScript := rest\<rparr>)
          else if ok \<and> b \<in> set (localBranches w)
          then (None, w\<lparr>headBranch := b, checkoutScript := rest\<rparr>)
          else (Some ''exit status 1'', w\<lparr>checkoutScript := rest\<rparr>))"

definition exampleRebase :: "string \<Rightarrow> string \<Rightarrow> exampleWorld \<Rightarrow> error \<times> exampleWorld" where
  "exampleRebase repoDir upstream w =
     (case nextOutcome (rebaseScript w) of
        (ok, rest) \<Rightarrow>
          (if ok then None else Some ''exit status 1'', w\<lparr>rebaseScript := rest\<rparr>))"

definition symlinkInfo :: FileInfo where
  "symlinkInfo = \<lparr>Size = 40, ModTimeUnixNano = 1700000000000000000, Mode = ModeSymlink OR 0x1FF\<rparr>"

definition plainInfo :: FileInfo where
  "plainInfo = \<lparr>Size = 1024, ModTimeUnixNano = 1700000000000000000, Mode = 0x1A4\<rparr>"

definition exampleSys :: "exampleWorld Sys" where
  "exampleSys =
     \<lparr>filepathJoin = (\<lambda>parts. Join parts ''/''),
      stringsTrimSpace = trimAsciiSpace,
      osStat = exampleStat,
      osLstat = exampleStat,
      gitStatusShort = (\<lambda>repoDir w. Some (statusText w)),
      gitStatusShortColor = (\<lambda>repoDir w. Some (statusText w)),
      gitSymbolicRefOriginHead = (\<lambda>repoDir w. originHead w),
      gitRevParseVerify = (\<lambda>repoDir ref w. True),
      gitPull = (\<lambda>repoDir w. (None, w)),
      gitRebase = exampleRebase,
      gitRebaseAbort = (\<lambda>repoDir w. (None, w)),
      GetCurrentBranch = (\<lambda>repoDir w. headBranch w),
      AheadBehind = (\<lambda>repoDir b upstream w. (2, 3)),
      ListLocalBranches = (\<lambda>repoDir w. localBranches w),
      gitCheckout = exampleCheckout,
      npmLinkRun = (\<lambda>dir w. (None, w)),
      npmLinkPackageRun =
        (\<lambda>dir pkgName w.
           (None, w\<lparr>files := (Join [dir, ''node_modules'', pkgName] ''/'', symlinkInfo) # files w\<rparr>)),
      shellRun = (\<lambda>dir command w. (None, w))\<rparr>"

definition exampleFlags :: syncFlags where
  "exampleFlags = \<lparr>syncBranch = [], syncNoRebase = False, syncInstall = True\<rparr>"

definition exampleRepo :: "string \<Rightarrow> string list \<Rightarrow> RepoDef" where
  "exampleRepo p ds = \<lparr>Path = p, DefaultBranch = [], Dependencies = ds\<rparr>"

definition exampleWorkspace :: Workspace where
  "exampleWorkspace =
     \<lparr>Repos = fmap_of_list
        [(''AppModel'', exampleRepo ''AppModel'' []),
         (''AppAPI'', exampleRepo ''AppAPI'' [])],
      WorkspaceDefaultBranch = []\<rparr>"

definition initialState :: "'w \<Rightarrow> 'w State" where
  "initialState w = \<lparr>world = w, calls = [], stdout = []\<rparr>"

text \<open>A clean repository on \<^verbatim>\<open>main\<close> with a second branch \<^verbatim>\<open>feature\<close>.\<close>

definition cleanWorld :: exampleWorld where
  "cleanWorld =
     \<lparr>headBranch = ''main'', localBranches = [''main'', ''feature''], statusText = [],
      files = [(''/ws/AppAPI/package-lock.json'', plainInfo)],
      checkoutScript = [], rebaseScript = [],
      originHead = Some (''refs/remotes/origin/main'' @ [CHR 0x0A])\<rparr>"

text \<open>The same repository with a modified file.\<close>

definition dirtyWorld :: exampleWorld where
  "dirtyWorld = cleanWorld\<lparr>statusText := '' M main.go''\<rparr>"

text \<open>The same repository when the next rebase stops on a conflict.\<close>

definition conflictWorld :: exampleWorld where
  "conflictWorld = cleanWorld\<lparr>rebaseScript := [False]\<rparr>"

text \<open>The same repository when the first checkout to come succeeds and the second fails
  (another process holds the lock of the index, say).\<close>

definition lockedWorld :: exampleWorld where
  "lockedWorld = cleanWorld\<lparr>checkoutScript := [True, False]\<rparr>"

text \<open>The same repository with no branch checked out (a detached head).\<close>

definition detachedWorld :: exampleWorld where
  "detachedWorld = cleanWorld\<lparr>headBranch := ''HEAD''\<rparr>"

text \<open>The same repository when the default branch of the remote is \<^verbatim>\<open>feature/x\<close>.\<close>

definition slashWorld :: exampleWorld where
  "slashWorld = cleanWorld\<lparr>originHead := Some (''refs/remotes/origin/feature/x'' @ [CHR 0x0A])\<rparr>"

text \<open>The run of \<^verbatim>\<open>syncRepoFull\<close> on the repository \<^verbatim>\<open>AppAPI\<close> of the example
  workspace, from a given world.\<close>

definition exampleSync :: "exampleWorld \<Rightarrow> repoSyncResult \<times> exampleWorld State" where
  "exampleSync w =
     syncRepoFull exampleFlags exampleSys ''/ws'' exampleWorkspace ''AppAPI''
       (exampleRepo ''AppAPI'' []) ''/ws/AppAPI'' (initialState w)"

text \<open>A world in which \<^verbatim>\<open>AppModel\<close> has been built and \<^verbatim>\<open>AppAPI\<close> is not yet linked to it.\<close>

definition builtWorld :: exampleWorld where
  "builtWorld =
     cleanWorld\<lparr>files :=
       [(''/ws/AppModel/smithy/build/smithyprojections/smithy/source/typescript-ssdk-codegen/package.json'',
         plainInfo),
        (''/ws/AppModel/smithy/build/smithyprojections/smithy/source/typescript-ssdk-codegen/dist-types'',
         plainInfo)]\<rparr>"

section \<open>Properties of the remote names\<close>

lemma Contains_single: "Contains s [c] \<longleftrightarrow> c \<in> set s"
  by (induction s) (auto simp: HasPrefix_def)

lemma Split_nonempty: "Split s c \<noteq> []"
  by (induction s) (auto split: list.splits)

lemma Split_no_sep: "c \<notin> set s \<Longrightarrow> Split s c = [s]"
  by (induction s) auto

lemma afterLast_Nil: "afterLast c [] = []"
  by (simp add: afterLast_def)

lemma afterLast_Cons:
  "afterLast c (x # s) = (if c \<in> set s then afterLast c s else if x = c then s else x # s)"
proof (cases "c \<in> set s")
  case True
  then have "takeWhile (\<lambda>x. x \<noteq> c) (rev s @ [x]) = takeWhile (\<lambda>x. x \<noteq> c) (rev s)"
    by (intro takeWhile_append1[where x=c]) auto
  with True show ?thesis by (simp add: afterLast_def)
next
  case False
  then have "takeWhile (\<lambda>x. x \<noteq> c) (rev s @ [x]) = rev s @ takeWhile (\<lambda>x. x \<noteq> c) [x]"
    by (intro takeWhile_append2) auto
  with False show ?thesis by (simp add: afterLast_def)
qed

lemma last_Split: "last (Split s c) = afterLast c s"
proof (induction s)
  case Nil
  show ?case by (simp add: afterLast_Nil)
next
  case (Cons x s)
  show ?case
  proof (cases "c \<in> set s")
    case True
    then have "length (Split s c) \<ge> 2"
      by (induction s) (auto simp: Split_nonempty Suc_le_eq split: list.splits)
    then obtain p q ps where "Split s c = p # q # ps"
      by (cases "Split s c"; cases "tl (Split s c)") auto
    with Cons True show ?thesis by (auto simp: afterLast_Cons)
  next
    case False
    then show ?thesis by (auto simp: afterLast_Cons Split_no_sep)
  qed
qed

lemma stripTrailingSeparators_id:
  "path = [] \<or> last path \<noteq> CHR ''/'' \<Longrightarrow> stripTrailingSeparators path = path"
  by (subst stripTrailingSeparators.simps) auto

lemma scanBack_le: "scanBack p k \<le> k"
  by (induction k) auto

lemma scanBack_take:
  "k \<le> length p \<Longrightarrow> drop (scanBack p k) (take k p) = afterLast (CHR ''/'') (take k p)"
proof (induction k)
  case 0
  then show ?case by (simp add: afterLast_Nil)
next
  case (Suc k)
  then have k: "k < length p" by simp
  have tk: "take (Suc k) p = take k p @ [p ! k]"
    using k by (simp add: take_Suc_conv_app_nth)
  show ?case
  proof (cases "p ! k = CHR ''/''")
    case True
    then show ?thesis using k by (simp add: tk afterLast_def)
  next
    case False
    have "scanBack p k \<le> k" by (rule scanBack_le)
    then have "drop (scanBack p k) (take k p @ [p ! k]) = drop (scanBack p k) (take k p) @ [p ! k]"
      using k by simp
    with False Suc show ?thesis using k by (simp add: tk afterLast_def)
  qed
qed

lemma scanBack_afterLast: "drop (scanBack p (length p)) p = afterLast (CHR ''/'') p"
  using scanBack_take[of "length p" p] by simp

lemma afterLast_append_clean:
  assumes b: "c \<notin> set b" and s: "c \<in> set s"
  shows "afterLast c (a @ s @ b) = afterLast c s @ b"
proof -
  have 1: "takeWhile (\<lambda>x. x \<noteq> c) (rev b @ rev s @ rev a)
         = rev b @ takeWhile (\<lambda>x. x \<noteq> c) (rev s @ rev a)"
    using b by (intro takeWhile_append2) auto
  have 2: "takeWhile (\<lambda>x. x \<noteq> c) (rev s @ rev a) = takeWhile (\<lambda>x. x \<noteq> c) (rev s)"
    using s by (intro takeWhile_append1[where x=c]) auto
  show ?thesis using 1 2 by (simp add: afterLast_def)
qed

lemma TrimSuffix_append: "TrimSuffix (x @ suf) suf = x"
  by (simp add: TrimSuffix_def HasSuffix_def)

text \<open>
  Claim C10. For every string of the form org/repo (it contains a slash, no colon, and
  starts with neither \<^verbatim>\<open>git@\<close> nor \<^verbatim>\<open>https://\<close>), the repo name extracted from the
  built remote URL is the part of the string after its last slash, and so is the repo
  name extracted from the string itself.
\<close>

theorem RepoNameFromRemote_BuildRemoteURL:
  assumes "Contains orgRepo ''/''" and "\<not> Contains orgRepo '':''"
    and "\<not> HasPrefix orgRepo ''git@''" and "\<not> HasPrefix orgRepo ''https://''"
  shows "RepoNameFromRemote (BuildRemoteURL orgRepo) = afterLast (CHR ''/'') orgRepo
       \<and> RepoNameFromRemote orgRepo = afterLast (CHR ''/'') orgRepo"
proof -
  let ?url = "''git@github.com:'' @ orgRepo @ ''.git''"
  have sl: "CHR ''/'' \<in> set orgRepo"
    using assms(1) by (simp add: Contains_single)
  have url: "BuildRemoteURL orgRepo = ?url"
    using assms(3,4) by (simp add: BuildRemoteURL_def)
  have colon: "Contains ?url '':''"
    by (simp add: Contains_single)
  have strip: "stripTrailingSeparators ?url = ?url"
    by (rule stripTrailingSeparators_id) simp
  have al: "afterLast (CHR ''/'') ?url = afterLast (CHR ''/'') orgRepo @ ''.git''"
    using sl by (intro afterLast_append_clean) auto
  have base: "Base ?url = afterLast (CHR ''/'') orgRepo @ ''.git''"
    unfolding Base_def Let_def strip scanBack_afterLast al by simp
  have direct: "RepoNameFromRemote orgRepo = afterLast (CHR ''/'') orgRepo"
    using assms(1,2) by (simp add: RepoNameFromRemote_def last_Split)
  have "RepoNameFromRemote ?url = afterLast (CHR ''/'') orgRepo"
    using colon unfolding RepoNameFromRemote_def base by (simp add: TrimSuffix_append)
  with url direct show ?thesis by simp
qed

theorem RepoNameFromRemote_BuildRemoteURL_witness:
  "Contains ''Spark-Rewards/AppAPI'' ''/'' \<and> \<not> Contains ''Spark-Rewards/AppAPI'' '':''
   \<and> \<not> HasPrefix ''Spark-Rewards/AppAPI'' ''git@''
   \<and> \<not> HasPrefix ''Spark-Rewards/AppAPI'' ''https://''
   \<and> BuildRemoteURL ''Spark-Rewards/AppAPI'' = ''git@github.com:Spark-Rewards/AppAPI.git''
   \<and> RepoNameFromRemote (BuildRemoteURL ''Spark-Rewards/AppAPI'') = ''AppAPI''
   \<and> RepoNameFromRemote ''Spark-Rewards/AppAPI'' = ''AppAPI''"
proof -
  have h1: "Contains ''Spark-Rewards/AppAPI'' ''/''" by (simp add: HasPrefix_def)
  have h2: "\<not> Contains ''Spark-Rewards/AppAPI'' '':''" by (simp add: HasPrefix_def)
  have h3: "\<not> HasPrefix ''Spark-Rewards/AppAPI'' ''git@''" by (simp add: HasPrefix_def)
  have h4: "\<not> HasPrefix ''Spark-Rewards/AppAPI'' ''https://''" by (simp add: HasPrefix_def)
  have a: "afterLast (CHR ''/'') ''Spark-Rewards/AppAPI'' = ''AppAPI''"
    by (simp add: afterLast_def)
  have u: "BuildRemoteURL ''Spark-Rewards/AppAPI'' = ''git@github.com:Spark-Rewards/AppAPI.git''"
    using h3 h4 by (simp add: BuildRemoteURL_def)
  show ?thesis
    using RepoNameFromRemote_BuildRemoteURL [OF h1 h2 h3 h4] h1 h2 h3 h4 a u by simp
qed

section \<open>Properties of the dependency resolver\<close>

lemma collect_seen: "n \<in> seen st \<Longrightarrow> collect ws n st = st"
  by (simp add: collect.simps)

lemma collect_no_implicit:
  assumes "n \<notin> seen st" and "\<not> implicitPresent ws n"
  shows "collect ws n st =
           (case fmlookup (Repos ws) n of
              None \<Rightarrow> st\<lparr>seen := insert n (seen st)\<rparr>
            | Some repo \<Rightarrow> collectEach ws (Dependencies repo) (st\<lparr>seen := insert n (seen st)\<rparr>))"
  using assms
  by (subst collect.simps) (auto simp: implicitPresent_def Let_def split: option.splits)

text \<open>
  Claim C1, at a workspace in which \<^verbatim>\<open>Web\<close> declares the dependencies
  \<^verbatim>\<open>AppModel\<close> and \<^verbatim>\<open>AppAPI\<close>: the resolver returns \<^verbatim>\<open>AppModel\<close> twice. The
  declared edge appends it (after the check \<^verbatim>\<open>containsRun\<close>), and the implicit edge of
  \<^verbatim>\<open>AppAPI\<close> appends it again, without the check.
\<close>

theorem getDepsForRun_duplicate:
  "getDepsForRun
     \<lparr>Repos = fmap_of_list
        [(''Web'', \<lparr>Path = ''Web'', DefaultBranch = [], Dependencies = [''AppModel'', ''AppAPI'']\<rparr>),
         (''AppModel'', \<lparr>Path = ''AppModel'', DefaultBranch = [], Dependencies = []\<rparr>),
         (''AppAPI'', \<lparr>Path = ''AppAPI'', DefaultBranch = [], Dependencies = []\<rparr>)],
      WorkspaceDefaultBranch = []\<rparr>
     ''Web''
   = [''AppModel'', ''AppModel'', ''AppAPI'']"
  by (simp add: getDepsForRun_def collect.simps apiToModel_def Let_def)

text \<open>
  Claim C4, at a workspace with a cycle that the target reaches (\<^verbatim>\<open>Web\<close> depends on
  \<^verbatim>\<open>AppModel\<close>, which depends on \<^verbatim>\<open>Web\<close>): the resolver returns (the function is
  total, by its termination proof), and what it returns holds \<^verbatim>\<open>AppModel\<close> twice.
\<close>

theorem getDepsForRun_cycle_duplicate:
  "getDepsForRun
     \<lparr>Repos = fmap_of_list
        [(''Web'', \<lparr>Path = ''Web'', DefaultBranch = [], Dependencies = [''AppModel'', ''AppAPI'']\<rparr>),
         (''AppModel'', \<lparr>Path = ''AppModel'', DefaultBranch = [], Dependencies = [''Web'']\<rparr>),
         (''AppAPI'', \<lparr>Path = ''AppAPI'', DefaultBranch = [], Dependencies = []\<rparr>)],
      WorkspaceDefaultBranch = []\<rparr>
     ''Web''
   = [''AppModel'', ''AppModel'', ''AppAPI'']"
  by (simp add: getDepsForRun_def collect.simps apiToModel_def Let_def)

text \<open>
  Claim C5. In a workspace where X declares the dependencies Y and Z, Y declares Z, Z
  declares none, the three names differ and none of them has an implicit counterpart in
  the workspace, the resolver returns Z and then Y for the target X.
\<close>

theorem getDepsForRun_post_order:
  assumes "distinct [x, y, z]"
    and "fmlookup (Repos ws) x = Some rx" and "Dependencies rx = [y, z]"
    and "fmlookup (Repos ws) y = Some ry" and "Dependencies ry = [z]"
    and "fmlookup (Repos ws) z = Some rz" and "Dependencies rz = []"
    and "\<not> implicitPresent ws x" and "\<not> implicitPresent ws y" and "\<not> implicitPresent ws z"
  shows "getDepsForRun ws x = [z, y]"
proof -
  let ?s0 = "\<lparr>seen = {}, deps = []\<rparr>"
  let ?sx = "\<lparr>seen = {x}, deps = []\<rparr>"
  let ?sy = "\<lparr>seen = {y, x}, deps = []\<rparr>"
  let ?sz = "\<lparr>seen = {z, y, x}, deps = []\<rparr>"
  from assms(1) have ne: "x \<noteq> y" "y \<noteq> x" "x \<noteq> z" "z \<noteq> x" "y \<noteq> z" "z \<noteq> y"
    by auto
  have cz: "collect ws z ?sy = ?sz"
    using ne assms(6,7,10) by (simp add: collect_no_implicit)
  have cy: "collect ws y ?sx = \<lparr>seen = {z, y, x}, deps = [z]\<rparr>"
    using ne assms(4,5,6,9) by (simp add: collect_no_implicit cz Let_def)
  have cz2: "collect ws z \<lparr>seen = {z, y, x}, deps = [z, y]\<rparr> = \<lparr>seen = {z, y, x}, deps = [z, y]\<rparr>"
    by (simp add: collect_seen)
  have cx: "collect ws x ?s0 = \<lparr>seen = {z, y, x}, deps = [z, y]\<rparr>"
    using ne assms(2,3,4,6,8) by (simp add: collect_no_implicit cy cz2 Let_def)
  show ?thesis
    using ne by (simp add: getDepsForRun_def cx)
qed

theorem getDepsForRun_post_order_witness:
  "getDepsForRun
     \<lparr>Repos = fmap_of_list
        [(''X'', \<lparr>Path = ''X'', DefaultBranch = [], Dependencies = [''Y'', ''Z'']\<rparr>),
         (''Y'', \<lparr>Path = ''Y'', DefaultBranch = [], Dependencies = [''Z'']\<rparr>),
         (''Z'', \<lparr>Path = ''Z'', DefaultBranch = [], Dependencies = []\<rparr>)],
      WorkspaceDefaultBranch = []\<rparr>
     ''X''
   = [''Z'', ''Y'']"
proof -
  let ?rx = "\<lparr>Path = ''X'', DefaultBranch = [], Dependencies = [''Y'', ''Z'']\<rparr>"
  let ?ry = "\<lparr>Path = ''Y'', DefaultBranch = [], Dependencies = [''Z'']\<rparr>"
  let ?rz = "\<lparr>Path = ''Z'', DefaultBranch = [], Dependencies = []\<rparr>"
  let ?ws = "\<lparr>Repos = fmap_of_list [(''X'', ?rx), (''Y'', ?ry), (''Z'', ?rz)],
              WorkspaceDefaultBranch = []\<rparr>"
  show ?thesis
    by (rule getDepsForRun_post_order
          [where x = "''X''" and y = "''Y''" and z = "''Z''" and ws = ?ws
             and rx = ?rx and ry = ?ry and rz = ?rz])
       (simp_all add: implicitPresent_def apiToModel_def)
qed

subsection \<open>What holds of every workspace\<close>

text \<open>
  The resolver never returns its target, returns only names the workspace holds, and
  returns no name twice in a workspace where no name has an implicit counterpart: a
  declared dependency is appended only when \<^verbatim>\<open>containsRun\<close> does not find it.
\<close>

lemma containsRun_iff: "containsRun xs x \<longleftrightarrow> x \<in> set xs"
  by (induction xs) auto

lemma collect_deps_in_workspace:
  "set (deps (collect ws n st)) \<subseteq> set (deps st) \<union> fmdom' (Repos ws)"
  "set (deps (collectEach ws ds st)) \<subseteq> set (deps st) \<union> fmdom' (Repos ws)"
proof (induction ws n st and ws ds st rule: collect_collectEach.induct)
  case (1 ws n st)
  show ?case
  proof (cases "n \<in> seen st")
    case True
    then show ?thesis by (simp add: collect.simps)
  next
    case False
    define st1 where "st1 = st\<lparr>seen := insert n (seen st)\<rparr>"
    define st2 where "st2 = (case apiToModel n of
                     None \<Rightarrow> st1
                   | Some modelName \<Rightarrow>
                       if fmlookup (Repos ws) modelName \<noteq> None
                       then (let st' = collect ws modelName st1
                             in st'\<lparr>deps := deps st' @ [modelName]\<rparr>)
                       else st1)"
    have s2: "set (deps st2) \<subseteq> set (deps st) \<union> fmdom' (Repos ws)"
    proof (cases "apiToModel n")
      case None
      then show ?thesis by (simp add: st2_def st1_def)
    next
      case (Some m)
      show ?thesis
      proof (cases "fmlookup (Repos ws) m \<noteq> None")
        case True
        from 1(1)[OF False st1_def Some True]
        have "set (deps (collect ws m st1)) \<subseteq> set (deps st) \<union> fmdom' (Repos ws)"
          by (simp add: st1_def)
        moreover have "m \<in> fmdom' (Repos ws)" using True by (auto simp: fmdom'I)
        ultimately show ?thesis using Some True by (simp add: st2_def Let_def)
      next
        case False
        then show ?thesis using Some by (simp add: st2_def st1_def)
      qed
    qed
    have res: "collect ws n st = (case fmlookup (Repos ws) n of
             None \<Rightarrow> st2
           | Some repo \<Rightarrow> collectEach ws (Dependencies repo) st2)"
      using False by (simp add: collect.simps st2_def st1_def Let_def split: option.splits)
    show ?thesis
    proof (cases "fmlookup (Repos ws) n")
      case None
      then show ?thesis using s2 res by simp
    next
      case (Some repo)
      from 1(2)[OF False st1_def st2_def Some] s2 res Some show ?thesis by auto
    qed
  qed
next
  case (2 ws st)
  then show ?case by simp
next
  case (3 ws dep rest st)
  show ?case
  proof (cases "fmlookup (Repos ws) dep \<noteq> None")
    case True
    then have d: "dep \<in> fmdom' (Repos ws)" by (auto simp: fmdom'I)
    from 3(1)[OF True] have a: "set (deps (collect ws dep st)) \<subseteq> set (deps st) \<union> fmdom' (Repos ws)" .
    from 3(2)[OF True refl] a d show ?thesis
      using True by (auto simp: Let_def split: if_splits)
  next
    case False
    from 3(3)[OF False] show ?thesis using False by simp
  qed
qed

lemma getDepsForRun_in_workspace: "set (getDepsForRun ws target) \<subseteq> fmdom' (Repos ws)"
  using collect_deps_in_workspace(1)[of ws target "\<lparr>seen = {}, deps = []\<rparr>"]
  by (auto simp: getDepsForRun_def)

lemma getDepsForRun_excludes_target: "target \<notin> set (getDepsForRun ws target)"
  by (simp add: getDepsForRun_def)

lemma collect_distinct_without_implicit:
  "(\<forall>k. \<not> implicitPresent ws k) \<Longrightarrow> distinct (deps st) \<Longrightarrow> distinct (deps (collect ws n st))"
  "(\<forall>k. \<not> implicitPresent ws k) \<Longrightarrow> distinct (deps st) \<Longrightarrow> distinct (deps (collectEach ws ds st))"
proof (induction ws n st and ws ds st rule: collect_collectEach.induct)
  case (1 ws n st)
  note none = 1(3) and dist = 1(4)
  show ?case
  proof (cases "n \<in> seen st")
    case True
    then show ?thesis using dist by (simp add: collect_seen)
  next
    case False
    define st1 where "st1 = st\<lparr>seen := insert n (seen st)\<rparr>"
    define st2 where "st2 = (case apiToModel n of
                     None \<Rightarrow> st1
                   | Some modelName \<Rightarrow>
                       if fmlookup (Repos ws) modelName \<noteq> None
                       then (let st' = collect ws modelName st1
                             in st'\<lparr>deps := deps st' @ [modelName]\<rparr>)
                       else st1)"
    have "\<not> implicitPresent ws n" using none by simp
    then have s2: "st2 = st1"
      by (auto simp: st2_def implicitPresent_def split: option.splits)
    show ?thesis
    proof (cases "fmlookup (Repos ws) n")
      case None
      then show ?thesis
        using False none dist by (simp add: collect_no_implicit)
    next
      case (Some repo)
      have "distinct (deps st2)" using dist by (simp add: s2 st1_def)
      from 1(2)[OF False st1_def st2_def Some none this]
      show ?thesis
        using False none Some by (simp add: collect_no_implicit s2 st1_def)
    qed
  qed
next
  case (2 ws st)
  then show ?case by simp
next
  case (3 ws dep rest st)
  note none = 3(4) and dist = 3(5)
  show ?case
  proof (cases "fmlookup (Repos ws) dep \<noteq> None")
    case True
    from 3(1)[OF True none dist] have a: "distinct (deps (collect ws dep st))" .
    let ?st' = "collect ws dep st"
    let ?next = "if containsRun (deps ?st') dep then ?st' else ?st'\<lparr>deps := deps ?st' @ [dep]\<rparr>"
    have "distinct (deps ?next)"
      using a by (simp add: containsRun_iff)
    from 3(2)[OF True refl none this] show ?thesis
      using True by (simp add: Let_def)
  next
    case False
    from 3(3)[OF False none dist] show ?thesis using False by simp
  qed
qed

lemma getDepsForRun_distinct_without_implicit:
  "(\<forall>k. \<not> implicitPresent ws k) \<Longrightarrow> distinct (getDepsForRun ws target)"
  using collect_distinct_without_implicit(1)[of ws "\<lparr>seen = {}, deps = []\<rparr>" target]
  by (simp add: getDepsForRun_def)

section \<open>Properties of command sync\<close>

lemma fst_run: "fst (run c f st) = fst (f (world st))"
  by (simp add: run_def split: prod.splits)

lemma world_run: "world (snd (run c f st)) = snd (f (world st))"
  by (simp add: run_def split: prod.splits)

lemma calls_run: "calls (snd (run c f st)) = calls st @ [(c, fst (f (world st)))]"
  by (simp add: run_def split: prod.splits)

lemma stdout_run: "stdout (snd (run c f st)) = stdout st"
  by (simp add: run_def split: prod.splits)

lemma GetDefaultBranch_last_segment:
  "GetDefaultBranch sys repoDir w =
     (case gitSymbolicRefOriginHead sys repoDir w of
        Some out \<Rightarrow> afterLast (CHR ''/'') (stringsTrimSpace sys out)
      | None \<Rightarrow>
          if gitRevParseVerify sys repoDir ''origin/main'' w then ''main''
          else if gitRevParseVerify sys repoDir ''origin/prod'' w then ''prod''
          else ''main'')"
  by (simp add: GetDefaultBranch_def probeDefault_def Let_def Split_nonempty last_Split
           split: option.splits)

lemma advertisedBranch_origin: "advertisedBranch (originPrefix @ b) = b"
  by (simp add: advertisedBranch_def HasPrefix_def)

lemma afterLast_origin_flat:
  assumes "CHR ''/'' \<notin> set b"
  shows "afterLast (CHR ''/'') (originPrefix @ b) = b"
proof -
  have "afterLast (CHR ''/'') (''refs/remotes/origin'' @ ''/'' @ b) = afterLast (CHR ''/'') ''/'' @ b"
    using assms by (intro afterLast_append_clean) auto
  then show ?thesis by (simp add: originPrefix_def afterLast_def)
qed

text \<open>
  Where the code and the precedence chain agree: on the first three levels always, and
  on the level of the remote whenever the branch that \<^verbatim>\<open>origin/HEAD\<close> names holds no
  slash. The code takes the last segment of the ref (\<^verbatim>\<open>parts[len(parts)-1]\<close>), not
  the ref without its prefix \<^verbatim>\<open>refs/remotes/origin/\<close>.
\<close>

lemma getTargetBranch_precedence_flat:
  assumes "\<And>out. gitSymbolicRefOriginHead sys repoDir w = Some out \<Longrightarrow>
             \<exists>b. stringsTrimSpace sys out = originPrefix @ b \<and> CHR ''/'' \<notin> set b"
  shows "getTargetBranch flags sys ws (Some repo) repoDir w
           = targetBranchPrecedence flags sys ws repo repoDir w"
proof (cases "gitSymbolicRefOriginHead sys repoDir w")
  case None
  then show ?thesis
    by (simp add: getTargetBranch_def targetBranchPrecedence_def GetDefaultBranch_last_segment)
next
  case (Some out)
  from assms [OF Some] obtain b where
    b: "stringsTrimSpace sys out = originPrefix @ b" "CHR ''/'' \<notin> set b"
    by auto
  show ?thesis
    using Some b
    by (simp add: getTargetBranch_def targetBranchPrecedence_def GetDefaultBranch_last_segment
          advertisedBranch_origin afterLast_origin_flat)
qed

lemma getTargetBranch_overrides:
  "syncBranch flags \<noteq> [] \<Longrightarrow> getTargetBranch flags sys ws (Some repo) repoDir w = syncBranch flags"
  "syncBranch flags = [] \<Longrightarrow> DefaultBranch repo \<noteq> [] \<Longrightarrow>
     getTargetBranch flags sys ws (Some repo) repoDir w = DefaultBranch repo"
  "syncBranch flags = [] \<Longrightarrow> DefaultBranch repo = [] \<Longrightarrow> WorkspaceDefaultBranch ws \<noteq> [] \<Longrightarrow>
     getTargetBranch flags sys ws (Some repo) repoDir w = WorkspaceDefaultBranch ws"
  by (simp_all add: getTargetBranch_def)

text \<open>
  Claim C2. When the working tree is dirty, \<^verbatim>\<open>syncRepoFull\<close> returns the status
  \<^verbatim>\<open>skipped\<close> with the dirty flag set, starts no process at all (the state it returns
  is the state it was given: no rebase, no checkout), and the counts it returns are
  those \<^verbatim>\<open>AheadBehind\<close> gave for the current branch and the upstream before the check.
\<close>

theorem syncRepoFull_dirty_skipped:
  assumes "IsDirty sys repoDir (world st)"
    and "currentBranch = GetCurrentBranch sys repoDir (world st)"
    and "upstream = ''origin/'' @ getTargetBranch flags sys ws (Some repo) repoDir (world st)"
    and "syncRepoFull flags sys wsPath ws repoName repo repoDir st = (res, st')"
  shows "status res = ''skipped'' \<and> dirty res \<and> st' = st
       \<and> (ahead res, behind res) = AheadBehind sys repoDir currentBranch upstream (world st)"
  using assms by (auto simp: syncRepoFull_def dirtyResult_def Let_def)

text \<open>
  Claim C6. When the working tree is clean, the no-rebase mode is off and the rebase of
  the current branch onto the upstream fails, \<^verbatim>\<open>syncRepoFull\<close> returns the status
  \<^verbatim>\<open>failed\<close> with a message that names the current branch and the upstream, and the
  only processes it has started are that rebase and the abort after it: no checkout and
  no other rebase.
\<close>

theorem syncRepoFull_rebase_failure:
  assumes "\<not> IsDirty sys repoDir (world st)" and "\<not> syncNoRebase flags"
    and "currentBranch = GetCurrentBranch sys repoDir (world st)"
    and "upstream = ''origin/'' @ getTargetBranch flags sys ws (Some repo) repoDir (world st)"
    and "gitRebase sys repoDir upstream (world st) = (Some e, w1)"
    and "syncRepoFull flags sys wsPath ws repoName repo repoDir st = (res, st')"
  shows "status res = ''failed''
       \<and> message res = ''rebase '' @ currentBranch @ '' onto '' @ upstream @ '' failed''
       \<and> calls st' = calls st @ [(GitRebase repoDir upstream, Some e),
                                   (GitRebaseAbort repoDir, fst (gitRebaseAbort sys repoDir w1))]
       \<and> world st' = snd (gitRebaseAbort sys repoDir w1)"
  using assms
  by (auto simp: syncRepoFull_def rebaseAll_def RebaseQuiet_def RebaseAbortQuiet_def run_def Let_def
           split: prod.splits)

text \<open>
  What the code does to come back: whenever \<^verbatim>\<open>syncRepoFull\<close> gets past its early
  returns (clean tree, rebase mode, the rebase of the current branch succeeded), the
  last process the log records is the checkout of the name \<^verbatim>\<open>GetCurrentBranch\<close> gave
  at the start, whatever the rebases of the other branches did, and the world the
  function returns is the one that checkout left. The error of the checkout is dropped.
\<close>

lemma syncRepoFull_final_checkout:
  assumes "\<not> IsDirty sys repoDir (world st)" and "\<not> syncNoRebase flags"
    and "currentBranch = GetCurrentBranch sys repoDir (world st)"
    and "upstream = ''origin/'' @ getTargetBranch flags sys ws (Some repo) repoDir (world st)"
    and "fst (gitRebase sys repoDir upstream (world st)) = None"
    and "syncRepoFull flags sys wsPath ws repoName repo repoDir st = (res, st')"
  shows "\<exists>e w2. calls st' \<noteq> [] \<and> last (calls st') = (GitCheckout repoDir currentBranch, e)
           \<and> gitCheckout sys repoDir currentBranch w2 = (e, world st')"
proof -
  let ?target = "getTargetBranch flags sys ws (Some repo) repoDir (world st)"
  obtain st1 where r1: "RebaseQuiet sys repoDir upstream st = (None, st1)"
    using assms(5)
    by (cases "RebaseQuiet sys repoDir upstream st")
       (auto simp: RebaseQuiet_def run_def split: prod.splits)
  obtain rb fl st2 where
    loop: "rebaseOthers sys repoDir upstream currentBranch ?target
             (ListLocalBranches sys repoDir (world st)) ([], [], st1) = (rb, fl, st2)"
    by (cases "rebaseOthers sys repoDir upstream currentBranch ?target
                 (ListLocalBranches sys repoDir (world st)) ([], [], st1)") auto
  have st': "st' = snd (CheckoutQuiet sys repoDir currentBranch st2)"
    using assms(1-4,6) r1 loop by (auto simp: syncRepoFull_def rebaseAll_def Let_def)
  let ?out = "gitCheckout sys repoDir currentBranch (world st2)"
  have c: "calls st' = calls st2 @ [(GitCheckout repoDir currentBranch, fst ?out)]"
    and w: "world st' = snd ?out"
    by (simp_all add: st' CheckoutQuiet_def calls_run world_run)
  have "gitCheckout sys repoDir currentBranch (world st2) = (fst ?out, world st')"
    by (simp add: w)
  with c show ?thesis by auto
qed

lemma installLoop_unchanged:
  "(\<And>r. r \<in> set rs \<Longrightarrow> \<not> lockfileChanged r) \<Longrightarrow> installLoop sys wsPath ws rs acc = acc"
  by (induction rs arbitrary: acc) (simp_all add: installStep_def)

text \<open>
  Claim C9. If the fingerprint of the lockfile (\<^verbatim>\<open>fileHash\<close> of
  \<^verbatim>\<open>package-lock.json\<close> in the repository) is the same in the world
  \<^verbatim>\<open>syncRepoFull\<close> starts in and in the world it ends in, the result has
  \<^verbatim>\<open>lockfileChanged\<close> false, and for such a result neither the install loop of
  \<^verbatim>\<open>syncAllRepos\<close> nor the install step of \<^verbatim>\<open>syncRepo\<close> does anything: no process,
  no output.
\<close>

theorem unchanged_lockfile_no_install:
  assumes "syncRepoFull flags sys wsPath ws repoName repo repoDir st = (res, st')"
    and "fileHash sys (filepathJoin sys [repoDir, ''package-lock.json'']) (world st)
           = fileHash sys (filepathJoin sys [repoDir, ''package-lock.json'']) (world st')"
  shows "\<not> lockfileChanged res
       \<and> installStep sys wsPath ws res acc = acc
       \<and> syncRepoInstall flags sys repoName repoDir res st' = st'"
proof -
  have "\<not> lockfileChanged res"
    using assms
    by (auto simp: syncRepoFull_def dirtyResult_def pullOnly_def rebaseAll_def Let_def
             split: if_splits prod.splits option.splits)
  then show ?thesis
    by (simp add: installStep_def syncRepoInstall_def)
qed

subsection \<open>The properties on the example world\<close>

lemmas example_defs =
  exampleSync_def exampleFlags_def exampleSys_def exampleWorkspace_def exampleRepo_def
  initialState_def cleanWorld_def dirtyWorld_def conflictWorld_def lockedWorld_def
  detachedWorld_def slashWorld_def trimAsciiSpace_def isAsciiSpace_def
  exampleStat_def exampleCheckout_def exampleRebase_def nextOutcome_def plainInfo_def

lemmas sync_defs =
  syncRepoFull_def rebaseAll_def pullOnly_def dirtyResult_def getTargetBranch_def
  GetDefaultBranch_def probeDefault_def IsDirty_def Status_def StatusShortColor_def
  RebaseQuiet_def RebaseAbortQuiet_def CheckoutQuiet_def Pull_def run_def fileHash_def
  TrimRightNewline_def Let_def

lemma example_target:
  "getTargetBranch exampleFlags exampleSys exampleWorkspace (Some (exampleRepo ''AppAPI'' []))
     ''/ws/AppAPI'' cleanWorld = ''main''"
  "getTargetBranch exampleFlags exampleSys exampleWorkspace (Some (exampleRepo ''AppAPI'' []))
     ''/ws/AppAPI'' conflictWorld = ''main''"
  by (simp_all add: example_defs sync_defs)

lemma example_clean:
  "\<not> IsDirty exampleSys ''/ws/AppAPI'' cleanWorld"
  "\<not> IsDirty exampleSys ''/ws/AppAPI'' conflictWorld"
  "\<not> IsDirty exampleSys ''/ws/AppAPI'' lockedWorld"
  by (simp_all add: example_defs sync_defs)

lemma getTargetBranch_levels_example:
  "getTargetBranch (exampleFlags\<lparr>syncBranch := ''release''\<rparr>) exampleSys exampleWorkspace
     (Some (exampleRepo ''AppAPI'' [])) ''/ws/AppAPI'' cleanWorld = ''release''
   \<and> getTargetBranch exampleFlags exampleSys exampleWorkspace
       (Some ((exampleRepo ''AppAPI'' [])\<lparr>DefaultBranch := ''prod''\<rparr>)) ''/ws/AppAPI'' cleanWorld = ''prod''
   \<and> getTargetBranch exampleFlags exampleSys (exampleWorkspace\<lparr>WorkspaceDefaultBranch := ''develop''\<rparr>)
       (Some (exampleRepo ''AppAPI'' [])) ''/ws/AppAPI'' cleanWorld = ''develop''
   \<and> getTargetBranch exampleFlags exampleSys exampleWorkspace
       (Some (exampleRepo ''AppAPI'' [])) ''/ws/AppAPI'' cleanWorld = ''main''"
  by (simp add: example_defs sync_defs)

text \<open>
  Claim C8, at a repository whose remote advertises the default branch
  \<^verbatim>\<open>feature/x\<close> (\<^verbatim>\<open>origin/HEAD\<close> points to \<^verbatim>\<open>refs/remotes/origin/feature/x\<close>),
  with no override and no default branch in the configuration: the precedence chain
  names \<^verbatim>\<open>feature/x\<close>, and \<^verbatim>\<open>getTargetBranch\<close> returns \<^verbatim>\<open>x\<close>, the last
  segment of the ref.
\<close>

theorem getTargetBranch_last_segment:
  "syncBranch exampleFlags = []
   \<and> DefaultBranch (exampleRepo ''AppAPI'' []) = []
   \<and> WorkspaceDefaultBranch exampleWorkspace = []
   \<and> gitSymbolicRefOriginHead exampleSys ''/ws/AppAPI'' slashWorld
       = Some (''refs/remotes/origin/feature/x'' @ [CHR 0x0A])
   \<and> targetBranchPrecedence exampleFlags exampleSys exampleWorkspace (exampleRepo ''AppAPI'' [])
        ''/ws/AppAPI'' slashWorld = ''feature/x''
   \<and> getTargetBranch exampleFlags exampleSys exampleWorkspace (Some (exampleRepo ''AppAPI'' []))
        ''/ws/AppAPI'' slashWorld = ''x''"
  by (simp add: example_defs sync_defs targetBranchPrecedence_def advertisedBranch_def
        originPrefix_def HasPrefix_def)

theorem syncRepoFull_dirty_skipped_witness:
  "IsDirty exampleSys ''/ws/AppAPI'' dirtyWorld
   \<and> status (fst (exampleSync dirtyWorld)) = ''skipped''
   \<and> dirty (fst (exampleSync dirtyWorld))
   \<and> snd (exampleSync dirtyWorld) = initialState dirtyWorld
   \<and> ahead (fst (exampleSync dirtyWorld)) = 2
   \<and> behind (fst (exampleSync dirtyWorld)) = 3"
proof -
  have h: "IsDirty exampleSys ''/ws/AppAPI'' (world (initialState dirtyWorld))"
    by (simp add: example_defs sync_defs)
  have ab: "AheadBehind exampleSys d b u w = (2, 3)" for d b u w
    by (simp add: exampleSys_def)
  from syncRepoFull_dirty_skipped
         [where flags = exampleFlags and sys = exampleSys and wsPath = "''/ws''"
              and ws = exampleWorkspace and repoName = "''AppAPI''"
              and repo = "exampleRepo ''AppAPI'' []" and repoDir = "''/ws/AppAPI''"
              and st = "initialState dirtyWorld",
          OF h refl refl surjective_pairing]
  show ?thesis
    using h by (simp add: exampleSync_def ab initialState_def)
qed

theorem syncRepoFull_rebase_failure_witness:
  "status (fst (exampleSync conflictWorld)) = ''failed''
   \<and> message (fst (exampleSync conflictWorld)) = ''rebase main onto origin/main failed''
   \<and> calls (snd (exampleSync conflictWorld))
       = [(GitRebase ''/ws/AppAPI'' ''origin/main'', Some ''exit status 1''),
          (GitRebaseAbort ''/ws/AppAPI'', None)]
   \<and> headBranch (world (snd (exampleSync conflictWorld))) = ''main''"
proof -
  let ?st = "initialState conflictWorld"
  have nd: "\<not> IsDirty exampleSys ''/ws/AppAPI'' (world ?st)"
    by (simp add: example_clean initialState_def)
  have nr: "\<not> syncNoRebase exampleFlags"
    by (simp add: exampleFlags_def)
  have up: "''origin/main'' = ''origin/'' @ getTargetBranch exampleFlags exampleSys exampleWorkspace
              (Some (exampleRepo ''AppAPI'' [])) ''/ws/AppAPI'' (world ?st)"
    by (simp add: example_target initialState_def)
  have cur: "''main'' = GetCurrentBranch exampleSys ''/ws/AppAPI'' (world ?st)"
    by (simp add: example_defs)
  have rb: "gitRebase exampleSys ''/ws/AppAPI'' ''origin/main'' (world ?st)
              = (Some ''exit status 1'', conflictWorld\<lparr>rebaseScript := []\<rparr>)"
    by (simp add: example_defs)
  have ab: "gitRebaseAbort exampleSys d w = (None, w)" for d w
    by (simp add: exampleSys_def)
  from syncRepoFull_rebase_failure
         [where flags = exampleFlags and sys = exampleSys and wsPath = "''/ws''"
              and ws = exampleWorkspace and repoName = "''AppAPI''"
              and repo = "exampleRepo ''AppAPI'' []" and repoDir = "''/ws/AppAPI''"
              and st = "initialState conflictWorld",
          OF nd nr cur up rb surjective_pairing]
  show ?thesis
    by (simp add: exampleSync_def ab initialState_def conflictWorld_def cleanWorld_def)
qed

text \<open>
  Claim C3, at a clean repository with no branch checked out (a detached head) and the
  local branches \<^verbatim>\<open>main\<close> and \<^verbatim>\<open>feature\<close>: every process succeeds, the repository
  is reported as synced, and at the end the branch \<^verbatim>\<open>feature\<close> is checked out. The
  name the run started on is \<^verbatim>\<open>HEAD\<close>, and the checkout of \<^verbatim>\<open>HEAD\<close> that is to
  come back changes nothing.
\<close>

theorem syncRepoFull_detached_not_restored:
  "GetCurrentBranch exampleSys ''/ws/AppAPI'' detachedWorld = ''HEAD''
   \<and> \<not> IsDirty exampleSys ''/ws/AppAPI'' detachedWorld
   \<and> \<not> syncNoRebase exampleFlags
   \<and> status (fst (exampleSync detachedWorld)) = ''synced''
   \<and> calls (snd (exampleSync detachedWorld))
       = [(GitRebase ''/ws/AppAPI'' ''origin/main'', None),
          (GitCheckout ''/ws/AppAPI'' ''feature'', None),
          (GitRebase ''/ws/AppAPI'' ''origin/main'', None),
          (GitCheckout ''/ws/AppAPI'' ''HEAD'', None)]
   \<and> GetCurrentBranch exampleSys ''/ws/AppAPI'' (world (snd (exampleSync detachedWorld))) = ''feature''"
  by (simp add: example_defs sync_defs)

text \<open>
  The same happens on a branch when the last checkout fails: the run starts on
  \<^verbatim>\<open>main\<close>, the checkout of \<^verbatim>\<open>main\<close> that is to come back returns an error, the
  error is dropped, and the repository is reported as synced with \<^verbatim>\<open>feature\<close>
  checked out.
\<close>

lemma syncRepoFull_checkout_error_dropped:
  "GetCurrentBranch exampleSys ''/ws/AppAPI'' lockedWorld = ''main''
   \<and> \<not> IsDirty exampleSys ''/ws/AppAPI'' lockedWorld
   \<and> status (fst (exampleSync lockedWorld)) = ''synced''
   \<and> calls (snd (exampleSync lockedWorld))
       = [(GitRebase ''/ws/AppAPI'' ''origin/main'', None),
          (GitCheckout ''/ws/AppAPI'' ''feature'', None),
          (GitRebase ''/ws/AppAPI'' ''origin/main'', None),
          (GitCheckout ''/ws/AppAPI'' ''main'', Some ''exit status 1'')]
   \<and> GetCurrentBranch exampleSys ''/ws/AppAPI'' (world (snd (exampleSync lockedWorld))) = ''feature''"
  by (simp add: example_defs sync_defs)

text \<open>On a branch, with every process succeeding, the run does come back.\<close>

lemma syncRepoFull_clean_restored:
  "GetCurrentBranch exampleSys ''/ws/AppAPI'' cleanWorld = ''main''
   \<and> calls (snd (exampleSync cleanWorld))
       = [(GitRebase ''/ws/AppAPI'' ''origin/main'', None),
          (GitCheckout ''/ws/AppAPI'' ''feature'', None),
          (GitRebase ''/ws/AppAPI'' ''origin/main'', None),
          (GitCheckout ''/ws/AppAPI'' ''main'', None)]
   \<and> GetCurrentBranch exampleSys ''/ws/AppAPI'' (world (snd (exampleSync cleanWorld))) = ''main''"
  by (simp add: example_defs sync_defs)

theorem unchanged_lockfile_no_install_witness:
  "fileHash exampleSys ''/ws/AppAPI/package-lock.json'' cleanWorld
     = fileHash exampleSys ''/ws/AppAPI/package-lock.json'' (world (snd (exampleSync cleanWorld)))
   \<and> fileHash exampleSys ''/ws/AppAPI/package-lock.json'' cleanWorld \<noteq> []
   \<and> \<not> lockfileChanged (fst (exampleSync cleanWorld))
   \<and> installStep exampleSys ''/ws'' exampleWorkspace (fst (exampleSync cleanWorld))
        (0, snd (exampleSync cleanWorld)) = (0, snd (exampleSync cleanWorld))
   \<and> syncRepoInstall exampleFlags exampleSys ''AppAPI'' ''/ws/AppAPI'' (fst (exampleSync cleanWorld))
        (snd (exampleSync cleanWorld)) = snd (exampleSync cleanWorld)"
proof -
  have j: "filepathJoin exampleSys [''/ws/AppAPI'', ''package-lock.json'']
             = ''/ws/AppAPI/package-lock.json''"
    by (simp add: exampleSys_def)
  have fs: "files (world (snd (exampleSync cleanWorld))) = files cleanWorld"
    by (simp add: example_defs sync_defs)
  have same: "fileHash exampleSys ''/ws/AppAPI/package-lock.json'' (world (initialState cleanWorld))
     = fileHash exampleSys ''/ws/AppAPI/package-lock.json'' (world (snd (exampleSync cleanWorld)))"
    by (simp add: fileHash_def exampleSys_def exampleStat_def fs initialState_def)
  have ne: "fileHash exampleSys ''/ws/AppAPI/package-lock.json'' cleanWorld \<noteq> []"
    by (simp add: fileHash_def exampleSys_def exampleStat_def cleanWorld_def)
  from unchanged_lockfile_no_install
         [where flags = exampleFlags and sys = exampleSys and wsPath = "''/ws''"
              and ws = exampleWorkspace and repoName = "''AppAPI''"
              and repo = "exampleRepo ''AppAPI'' []" and repoDir = "''/ws/AppAPI''"
              and st = "initialState cleanWorld"
              and acc = "(0, snd (exampleSync cleanWorld))",
          OF surjective_pairing]
  show ?thesis
    using same ne by (simp add: j exampleSync_def initialState_def)
qed

section \<open>Properties of the link step\<close>

lemma world_printLine: "world (printLine s st) = world st"
  by (simp add: printLine_def)

lemma calls_printLine: "calls (printLine s st) = calls st"
  by (simp add: printLine_def)

text \<open>
  Claim C7. Let a call of \<^verbatim>\<open>autoLinkDeps\<close> make the link (it returns \<^verbatim>\<open>nil\<close> and has
  started the link processes). Then a second call from the state the first one left
  returns \<^verbatim>\<open>nil\<close>, prints that the model is already linked, and does nothing else: no
  process, no change of the world. What is assumed of \<^verbatim>\<open>npm\<close>: a run of
  \<^verbatim>\<open>npm link <pkg>\<close> that reports success leaves the package linked in that directory,
  and the two link commands do not remove the build output of the model.
\<close>

theorem autoLinkDeps_idempotent:
  assumes first: "autoLinkDeps sys wsPath ws repoName st = (None, st1)"
    and made: "calls st1 \<noteq> calls st"
    and links: "\<And>dir p w w'. npmLinkPackageRun sys dir p w = (None, w') \<Longrightarrow> IsLinked sys dir p w'"
    and keeps1: "\<And>dir d w. IsBuilt sys d w \<Longrightarrow> IsBuilt sys d (snd (npmLinkRun sys dir w))"
    and keeps2: "\<And>dir p d w. IsBuilt sys d w \<Longrightarrow> IsBuilt sys d (snd (npmLinkPackageRun sys dir p w))"
  shows "\<exists>modelName. apiToModel repoName = Some modelName
           \<and> autoLinkDeps sys wsPath ws repoName st1
               = (None, printLine (alreadyLinkedLine modelName) st1)"
proof -
  obtain modelName where am: "apiToModel repoName = Some modelName"
    using first made by (cases "apiToModel repoName") (auto simp: autoLinkDeps_def)
  obtain modelRepo where mr: "fmlookup (Repos ws) modelName = Some modelRepo"
    using first made am by (cases "fmlookup (Repos ws) modelName") (auto simp: autoLinkDeps_def)
  define modelDir where "modelDir = filepathJoin sys [wsPath, Path modelRepo]"
  define apiDir where "apiDir = filepathJoin sys [wsPath, Path (reposAt ws repoName)]"
  define p where "p = pkg (case modelToAPI modelName of None \<Rightarrow> zeroDepMapping | Some m \<Rightarrow> m)"
  define st0 where
    "st0 = printLine (''Linking local '' @ modelName @ '' -> '' @ repoName @ ''...'' @ [CHR 0x0A]) st"
  have unfold: "autoLinkDeps sys wsPath ws repoName s =
      (if \<not> IsBuilt sys modelDir (world s)
       then (None, printLine (''Using published '' @ p @ '' (local not built)'' @ [CHR 0x0A]) s)
       else if IsLinked sys apiDir p (world s)
       then (None, printLine (alreadyLinkedLine modelName) s)
       else
         (case Link sys (BuildOutputDir sys modelDir)
                 (printLine (''Linking local '' @ modelName @ '' -> '' @ repoName @ ''...'' @ [CHR 0x0A]) s) of
            (Some e, st2) \<Rightarrow> (Some (''npm link in '' @ modelName @ '' failed: '' @ e), st2)
          | (None, st2) \<Rightarrow>
              (case LinkPackage sys apiDir p st2 of
                 (Some e, st3) \<Rightarrow> (Some (''npm link '' @ p @ '' failed: '' @ e), st3)
               | (None, st3) \<Rightarrow> (None, printLine (linkedLine repoName modelName) st3))))" for s
    by (simp only: autoLinkDeps_def am mr modelDir_def apiDir_def p_def Let_def option.case)
  have built: "IsBuilt sys modelDir (world st)"
    using first made by (auto simp: unfold[of st] calls_printLine split: if_splits)
  have notlinked: "\<not> IsLinked sys apiDir p (world st)"
    using first made built by (auto simp: unfold[of st] calls_printLine split: if_splits)
  obtain st2 where l1: "Link sys (BuildOutputDir sys modelDir) st0 = (None, st2)"
    using first built notlinked
    by (cases "Link sys (BuildOutputDir sys modelDir) st0")
       (auto simp: unfold[of st] st0_def split: option.splits prod.splits)
  obtain st3 where l2: "LinkPackage sys apiDir p st2 = (None, st3)"
    using first built notlinked l1
    by (cases "LinkPackage sys apiDir p st2")
       (auto simp: unfold[of st] st0_def split: option.splits prod.splits)
  have st1: "st1 = printLine (linkedLine repoName modelName) st3"
    using first built notlinked l1 l2 by (simp add: unfold[of st] st0_def)
  have w2: "world st2 = snd (npmLinkRun sys (BuildOutputDir sys modelDir) (world st))"
    using l1 by (auto simp: Link_def run_def st0_def printLine_def split: prod.splits)
  have r3: "npmLinkPackageRun sys apiDir p (world st2) = (None, world st3)"
    using l2 by (auto simp: LinkPackage_def run_def split: prod.splits)
  have "IsBuilt sys modelDir (world st2)"
    unfolding w2 by (rule keeps1 [OF built])
  from keeps2 [OF this, of apiDir p] r3 have b3: "IsBuilt sys modelDir (world st3)"
    by simp
  have l3: "IsLinked sys apiDir p (world st3)"
    by (rule links [OF r3])
  have "autoLinkDeps sys wsPath ws repoName st1 = (None, printLine (alreadyLinkedLine modelName) st1)"
    using b3 l3 by (simp add: unfold st1 world_printLine)
  with am show ?thesis by simp
qed

lemma example_symlink: "(Mode symlinkInfo AND ModeSymlink) \<noteq> 0"
  by (simp add: symlinkInfo_def ModeSymlink_def)

theorem autoLinkDeps_idempotent_witness:
  "fst (autoLinkDeps exampleSys ''/ws'' exampleWorkspace ''AppAPI'' (initialState builtWorld)) = None
   \<and> calls (snd (autoLinkDeps exampleSys ''/ws'' exampleWorkspace ''AppAPI'' (initialState builtWorld)))
       = [(NpmLink ''/ws/AppModel/smithy/build/smithyprojections/smithy/source/typescript-ssdk-codegen'', None),
          (NpmLinkPackage ''/ws/AppAPI'' ''@spark-rewards/sra-sdk'', None)]
   \<and> autoLinkDeps exampleSys ''/ws'' exampleWorkspace ''AppAPI''
        (snd (autoLinkDeps exampleSys ''/ws'' exampleWorkspace ''AppAPI'' (initialState builtWorld)))
       = (None, printLine (alreadyLinkedLine ''AppModel'')
                  (snd (autoLinkDeps exampleSys ''/ws'' exampleWorkspace ''AppAPI'' (initialState builtWorld))))"
proof -
  let ?run = "autoLinkDeps exampleSys ''/ws'' exampleWorkspace ''AppAPI'' (initialState builtWorld)"
  have ok: "fst ?run = None"
    and cs: "calls (snd ?run)
       = [(NpmLink ''/ws/AppModel/smithy/build/smithyprojections/smithy/source/typescript-ssdk-codegen'', None),
          (NpmLinkPackage ''/ws/AppAPI'' ''@spark-rewards/sra-sdk'', None)]"
    by (simp_all add: autoLinkDeps_def apiToModel_def modelToAPI_def reposAt_def
          IsBuilt_def IsLinked_def BuildOutputDir_def SmithyBuildPath_def SmithyBuildBase_def
          Link_def LinkPackage_def run_def printLine_def statFails_def Let_def
          exampleSys_def exampleWorkspace_def exampleRepo_def exampleStat_def
          initialState_def builtWorld_def cleanWorld_def)
  have first: "?run = (None, snd ?run)"
    using ok by (cases ?run) simp
  have made: "calls (snd ?run) \<noteq> calls (initialState builtWorld)"
    unfolding cs by (simp add: initialState_def)
  have links: "IsLinked exampleSys dir p w'"
    if "npmLinkPackageRun exampleSys dir p w = (None, w')" for dir p w w'
    using that example_symlink
    by (auto simp: exampleSys_def IsLinked_def exampleStat_def)
  have keeps1: "IsBuilt exampleSys d (snd (npmLinkRun exampleSys dir w))"
    if "IsBuilt exampleSys d w" for dir d w
    using that by (simp add: exampleSys_def)
  have keeps2: "IsBuilt exampleSys d (snd (npmLinkPackageRun exampleSys dir p w))"
    if "IsBuilt exampleSys d w" for dir p d w
    using that
    by (auto simp: exampleSys_def IsBuilt_def exampleStat_def statFails_def Let_def
             split: if_splits option.splits)
  from autoLinkDeps_idempotent [OF first made links keeps1 keeps2]
  have "autoLinkDeps exampleSys ''/ws'' exampleWorkspace ''AppAPI'' (snd ?run)
          = (None, printLine (alreadyLinkedLine ''AppModel'') (snd ?run))"
    by (auto simp: apiToModel_def)
  with ok cs show ?thesis by simp
qed

end
